theory Spec2Isabelle
  imports Complex_Main "HOL-Library.Multiset"
begin

text \<open>
  A model of \<^verbatim>\<open>gotoalert/database.py\<close>, the functions that enter an alert into the
  GOTO observation database: \<^verbatim>\<open>remove_previous_events\<close>, \<^verbatim>\<open>get_mpointing_info\<close>,
  \<^verbatim>\<open>get_grid_tiles\<close> and \<^verbatim>\<open>add_to_database\<close>. Each function of the source is a
  function here, with the session of the storage library passed along as a state and
  every exception as a value. The definitions come first, the properties after them.
\<close>

section \<open>Errors and dictionary access\<close>

text \<open>
  The exceptions that \<^verbatim>\<open>gotoalert/database.py\<close> raises itself or lets through.
  \<open>KeyError\<close> carries the missing key, \<open>ValueError\<close> its message,
  \<open>UnboundLocalError\<close> the name of the local variable read before assignment.
  \<open>MultipleResultsFound\<close> is what \<^verbatim>\<open>query.one_or_none()\<close> raises on two
  matching rows, and \<open>DatabaseError\<close> stands for whatever \<^verbatim>\<open>session.commit()\<close>
  raises when the storage engine refuses the transaction.
\<close>

datatype error =
    KeyError string
  | ValueError string
  | UnboundLocalError string
  | MultipleResultsFound
  | DatabaseError string

definition bind_err :: "error + 'a \<Rightarrow> ('a \<Rightarrow> error + 'b) \<Rightarrow> error + 'b" where
  "bind_err m f = (case m of Inl e \<Rightarrow> Inl e | Inr x \<Rightarrow> f x)"

text \<open>
  \<^verbatim>\<open>d[k]\<close> on a dictionary: a field of a dictionary record is \<open>None\<close> when
  the key is missing, and reading it raises \<open>KeyError k\<close>.
\<close>

definition getitem :: "string \<Rightarrow> 'a option \<Rightarrow> error + 'a" where
  "getitem k v = (case v of None \<Rightarrow> Inl (KeyError k) | Some x \<Rightarrow> Inr x)"

section \<open>The alert object and its strategy mapping\<close>

text \<open>
  \<^verbatim>\<open>event.strategy\<close> is a nested dictionary. Each key is a field holding
  \<open>None\<close> when the key is absent. A value that is present is taken to have the
  type its coercion (\<^verbatim>\<open>int(..)\<close>, \<^verbatim>\<open>float(..)\<close>, \<^verbatim>\<open>str(..)\<close>) yields, so the
  coercion is the identity. Python floats are modelled as reals: the arithmetic is
  exact, rounding is not modelled.
\<close>

record expset_dict =
  ed_num_exp :: "int option"
  ed_exptime :: "real option"
  ed_filt :: "string option"

datatype wait_time = WaitSingle real | WaitList "real list"

record cadence_dict =
  cd_num_todo :: "int option"
  cd_wait_time :: "wait_time option"

record constraints_dict =
  cn_max_sunalt :: "real option"
  cn_min_alt :: "real option"
  cn_min_moonsep :: "real option"
  cn_max_moon :: "string option"

record strategy =
  st_exposure_sets_dict :: "expset_dict list option"
  st_start_time :: "string option"
  st_stop_time :: "string option"
  st_rank :: "int option"
  st_cadence_dict :: "cadence_dict option"
  st_constraints_dict :: "constraints_dict option"
  st_on_grid :: "bool option"
  st_tile_limit :: "int option"
  st_prob_limit :: "real option"

text \<open>
  The \<^verbatim>\<open>Event\<close> object handed to the database functions. \<open>ev_skymap_url\<close> is
  \<open>None\<close> when the object has no \<^verbatim>\<open>skymap_url\<close> attribute; \<open>ev_coord\<close> is
  \<^verbatim>\<open>(coord.ra.value, coord.dec.value)\<close>.
\<close>

record event =
  ev_name :: string
  ev_ivorn :: string
  ev_source :: string
  ev_type :: string
  ev_time :: string
  ev_skymap_url :: "string option"
  ev_coord :: "real \<times> real"
  ev_strategy :: strategy

section \<open>\<^verbatim>\<open>get_mpointing_info\<close>\<close>

record exp_data =
  xd_num_exp :: int
  xd_exptime :: real
  xd_filt :: string
  xd_binning :: int
  xd_imgtype :: string

record mp_data =
  md_too :: bool
  md_min_time :: real
  md_valid_time :: int
  md_start_time :: string
  md_stop_time :: string
  md_start_rank :: int
  md_num_todo :: int
  md_wait_time :: wait_time
  md_max_sunalt :: real
  md_min_alt :: real
  md_min_moonsep :: real
  md_max_moon :: string

text \<open>The body of the loop over \<^verbatim>\<open>event.strategy['exposure_sets_dict']\<close>.\<close>

definition expset_entry :: "expset_dict \<Rightarrow> error + exp_data" where
  "expset_entry d =
     bind_err (getitem ''num_exp'' (ed_num_exp d)) (\<lambda>n.
     bind_err (getitem ''exptime'' (ed_exptime d)) (\<lambda>t.
     bind_err (getitem ''filt'' (ed_filt d)) (\<lambda>f.
       Inr \<lparr>xd_num_exp = n, xd_exptime = t, xd_filt = f,
            xd_binning = 1, xd_imgtype = ''SCIENCE''\<rparr>)))"

fun expsets_loop :: "expset_dict list \<Rightarrow> exp_data list \<Rightarrow> error + exp_data list" where
  "expsets_loop [] expsets = Inr expsets"
| "expsets_loop (d # ds) expsets =
     bind_err (expset_entry d) (\<lambda>x. expsets_loop ds (expsets @ [x]))"

text \<open>
  \<^verbatim>\<open>sum((exp_data['exptime'] + 30) * exp_data['num_exp'] for exp_data in expsets)\<close>:
  Python's \<^verbatim>\<open>sum\<close> adds from the left, starting at 0.
\<close>

definition min_time_of :: "exp_data list \<Rightarrow> real" where
  "min_time_of expsets =
     foldl (\<lambda>acc x. acc + (xd_exptime x + 30) * real_of_int (xd_num_exp x)) 0 expsets"

definition get_mpointing_info :: "event \<Rightarrow> error + (mp_data \<times> exp_data list)" where
  "get_mpointing_info ev =
     (let s = ev_strategy ev in
      bind_err (getitem ''exposure_sets_dict'' (st_exposure_sets_dict s)) (\<lambda>ds.
      bind_err (expsets_loop ds []) (\<lambda>expsets.
      bind_err (getitem ''start_time'' (st_start_time s)) (\<lambda>start.
      bind_err (getitem ''stop_time'' (st_stop_time s)) (\<lambda>stop.
      bind_err (getitem ''rank'' (st_rank s)) (\<lambda>rank.
      bind_err (getitem ''cadence_dict'' (st_cadence_dict s)) (\<lambda>cad.
      bind_err (getitem ''num_todo'' (cd_num_todo cad)) (\<lambda>num_todo.
      bind_err (getitem ''wait_time'' (cd_wait_time cad)) (\<lambda>wait.
      bind_err (getitem ''constraints_dict'' (st_constraints_dict s)) (\<lambda>con.
      bind_err (getitem ''max_sunalt'' (cn_max_sunalt con)) (\<lambda>max_sunalt.
      bind_err (getitem ''min_alt'' (cn_min_alt con)) (\<lambda>min_alt.
      bind_err (getitem ''min_moonsep'' (cn_min_moonsep con)) (\<lambda>min_moonsep.
      bind_err (getitem ''max_moon'' (cn_max_moon con)) (\<lambda>max_moon.
        Inr (\<lparr>md_too = True,
              md_min_time = min_time_of expsets,
              md_valid_time = - 1,
              md_start_time = start,
              md_stop_time = stop,
              md_start_rank = rank,
              md_num_todo = num_todo,
              md_wait_time = wait,
              md_max_sunalt = max_sunalt,
              md_min_alt = min_alt,
              md_min_moonsep = min_moonsep,
              md_max_moon = max_moon\<rparr>, expsets)))))))))))))))"

section \<open>The grid library's table and \<^verbatim>\<open>get_grid_tiles\<close>\<close>

text \<open>
  A row of \<^verbatim>\<open>grid.get_table()\<close> has four columns (tile name, RA, Dec, contained
  probability). \<open>sky_tile\<close> is one tile of the \<^verbatim>\<open>SkyGrid\<close> after
  \<^verbatim>\<open>apply_skymap\<close>: its table row, and \<^verbatim>\<open>event.skymap.contours[tile]\<close>, the
  contour values of the tile's pixels. The list of tiles is in the order of
  \<^verbatim>\<open>grid.pixels\<close>, which is the order of the table's rows.
\<close>

record table_row =
  tr_tilename :: string
  tr_ra :: real
  tr_dec :: real
  tr_prob :: real

record sky_tile =
  sk_row :: table_row
  sk_contours :: "real list"

record tables =
  full_table :: "table_row list"
  masked_table :: "table_row list"

text \<open>
  \<^verbatim>\<open>np.mean(contours) < 0.9\<close>. The mean of an empty array is NaN, and every
  comparison with NaN is false.
\<close>

definition mean_below :: "real list \<Rightarrow> bool" where
  "mean_below cs \<longleftrightarrow> cs \<noteq> [] \<and> sum_list cs / real (length cs) < 9 / 10"

text \<open>\<^verbatim>\<open>table[mask]\<close>: the rows whose mask entry is true.\<close>

definition apply_mask :: "'a list \<Rightarrow> bool list \<Rightarrow> 'a list" where
  "apply_mask table bs = map fst (filter snd (zip table bs))"

text \<open>
  \<^verbatim>\<open>table.sort('prob')\<close> is the sort of the table library. It puts the rows in
  ascending order of \<open>prob\<close>; the order it gives to rows of equal probability is its
  own matter (the default sort of the array library is not stable). So the sort is a
  parameter of the model, and \<open>sorts_by_prob\<close> says all that is known of it: the
  result has the same rows and is ascending in \<open>prob\<close>.
\<close>

definition sorts_by_prob :: "(table_row list \<Rightarrow> table_row list) \<Rightarrow> bool" where
  "sorts_by_prob table_sort \<longleftrightarrow>
     (\<forall>table. mset (table_sort table) = mset table \<and>
        sorted (map tr_prob (table_sort table)))"

text \<open>
  \<^verbatim>\<open>get_grid_tiles\<close>, from the library's sort and the grid with the skymap
  applied on. \<^verbatim>\<open>table.sort('prob'); table.reverse()\<close> is the sort followed by
  \<open>rev\<close>. The result holds \<^verbatim>\<open>event.full_table\<close> and \<^verbatim>\<open>event.masked_table\<close>;
  the function returns the latter.
\<close>

definition get_grid_tiles ::
  "(table_row list \<Rightarrow> table_row list) \<Rightarrow> sky_tile list \<Rightarrow> tables" where
  "get_grid_tiles table_sort grid =
     (let table = map sk_row grid;
          mean_mask = map (\<lambda>tile. mean_below (sk_contours tile)) grid;
          used_mask = (if length (filter (\<lambda>b. b) mean_mask) < 1
                       then map (\<lambda>r. tr_prob r > 9 / 10) table
                       else mean_mask);
          masked = apply_mask table used_mask
      in \<lparr>full_table = rev (table_sort table), masked_table = rev (table_sort masked)\<rparr>)"

section \<open>The observation database\<close>

text \<open>
  Rows of the tables the functions read and write. A relationship between two
  objects is the identifier of the other row; \<open>None\<close> is a null reference.
  Identifiers are given to objects when they are constructed, from the counter
  \<open>tb_next_id\<close>.
\<close>

record db_event =
  de_id :: nat
  de_name :: string
  de_ivorn :: string
  de_source :: string
  de_event_type :: string
  de_time :: string
  de_skymap :: "string option"

record db_grid =
  dg_id :: nat
  dg_name :: string
  dg_ra_fov :: real
  dg_dec_fov :: real
  dg_ra_overlap :: real
  dg_dec_overlap :: real
  dg_algorithm :: string

record db_grid_tile =
  gt_id :: nat
  gt_grid_id :: nat
  gt_name :: string

record db_survey =
  sv_id :: nat
  sv_name :: string
  sv_grid_id :: nat
  sv_event_id :: nat

record db_survey_tile =
  stl_id :: nat
  stl_weight :: real
  stl_survey_id :: nat
  stl_grid_tile_id :: "nat option"

record db_user =
  us_id :: nat
  us_username :: string
  us_password :: string
  us_full_name :: string

record db_exposure_set =
  es_id :: nat
  es_data :: exp_data
  es_mpointing_id :: "nat option"

record db_pointing =
  pt_id :: nat
  pt_status :: string
  pt_event_id :: "nat option"
  pt_grid_tile_id :: "nat option"
  pt_survey_tile_id :: "nat option"
  pt_mpointing_id :: "nat option"

record db_mpointing =
  mp_id :: nat
  mp_object_name :: string
  mp_ra :: "real option"
  mp_dec :: "real option"
  mp_data :: mp_data
  mp_status :: string
  mp_user_id :: "nat option"
  mp_event_id :: "nat option"
  mp_grid_tile_id :: "nat option"
  mp_survey_tile_id :: "nat option"

record store =
  tb_events :: "db_event list"
  tb_grids :: "db_grid list"
  tb_grid_tiles :: "db_grid_tile list"
  tb_surveys :: "db_survey list"
  tb_survey_tiles :: "db_survey_tile list"
  tb_users :: "db_user list"
  tb_mpointings :: "db_mpointing list"
  tb_exposure_sets :: "db_exposure_set list"
  tb_pointings :: "db_pointing list"
  tb_next_id :: nat

text \<open>
  An \<^verbatim>\<open>Mpointing\<close> object before it is inserted: its row, and the objects it
  holds through its relationships (\<^verbatim>\<open>user\<close>, \<^verbatim>\<open>survey_tile\<close>,
  \<^verbatim>\<open>exposure_sets\<close>, \<^verbatim>\<open>pointings\<close>).
\<close>

record mpointing =
  mo_row :: db_mpointing
  mo_user :: db_user
  mo_survey_tile :: "db_survey_tile option"
  mo_exposure_sets :: "db_exposure_set list"
  mo_pointings :: "db_pointing list"

section \<open>Logger, session and the collaborators outside the repository\<close>

text \<open>
  A log call is recorded with its level, its format string and the arguments
  given to \<^verbatim>\<open>format\<close>.
\<close>

datatype level = DEBUG | INFO | WARNING

datatype log_arg = AStr string | ANat nat | AReal real

type_synonym log_entry = "level \<times> string \<times> log_arg list"

text \<open>
  The session of the storage library: \<open>persisted\<close> is what the database holds,
  \<open>pending\<close> what the session sees (the database with the uncommitted changes).
\<close>

record session =
  persisted :: store
  pending :: store
  log_lines :: "log_entry list"

text \<open>
  What the functions use of the libraries \<^verbatim>\<open>obsdb\<close> and \<^verbatim>\<open>gototile\<close>:
  \<^item> \<open>apply_skymap\<close>: the \<^verbatim>\<open>SkyGrid\<close> built from a database grid, with the
    event's skymap applied on;
  \<^item> \<open>table_sort\<close>: \<^verbatim>\<open>table.sort('prob')\<close>, the sort of a table by its
    \<open>prob\<close> column;
  \<^item> \<open>commit_error\<close>: whether \<^verbatim>\<open>session.commit()\<close> raises on the given
    pending store, and the message of the \<open>DatabaseError\<close> it raises then;
  \<^item> \<open>exit_commits\<close>: whether leaving the \<^verbatim>\<open>with db.open_session()\<close> block
    normally commits the session;
  \<^item> \<open>get_next_pointing\<close>: \<^verbatim>\<open>Mpointing.get_next_pointing()\<close>, taken to return a
    Pointing for an Mpointing just made;
  \<^item> \<open>new_status\<close>: the status of an \<^verbatim>\<open>Mpointing\<close> just constructed.
\<close>

record env =
  apply_skymap :: "db_grid \<Rightarrow> event \<Rightarrow> sky_tile list"
  table_sort :: "table_row list \<Rightarrow> table_row list"
  commit_error :: "store \<Rightarrow> string option"
  exit_commits :: bool
  get_next_pointing :: "mpointing \<Rightarrow> db_pointing"
  new_status :: string

text \<open>
  A statement sequence that works on the session and may raise: the result is the
  value or the exception, with the session as it is at that point.
\<close>

type_synonym 'a prog = "session \<Rightarrow> (error + 'a) \<times> session"

definition ret :: "'a \<Rightarrow> 'a prog" where
  "ret x s = (Inr x, s)"

definition raise :: "error \<Rightarrow> 'a prog" where
  "raise e s = (Inl e, s)"

definition lift_err :: "error + 'a \<Rightarrow> 'a prog" where
  "lift_err r s = (r, s)"

definition then_do :: "'a prog \<Rightarrow> ('a \<Rightarrow> 'b prog) \<Rightarrow> 'b prog" where
  "then_do m f s = (case m s of (Inl e, s') \<Rightarrow> (Inl e, s') | (Inr x, s') \<Rightarrow> f x s')"

definition log_call :: "level \<Rightarrow> string \<Rightarrow> log_arg list \<Rightarrow> unit prog" where
  "log_call lv fmt args s = (Inr (), s\<lparr>log_lines := log_lines s @ [(lv, fmt, args)]\<rparr>)"

definition commit :: "env \<Rightarrow> unit prog" where
  "commit env s =
     (case commit_error env (pending s) of
        Some msg \<Rightarrow> (Inl (DatabaseError msg), s)
      | None \<Rightarrow> (Inr (), s\<lparr>persisted := pending s\<rparr>))"

definition rollback :: "session \<Rightarrow> session" where
  "rollback s = s\<lparr>pending := persisted s\<rparr>"

definition alloc :: "nat prog" where
  "alloc s = (Inr (tb_next_id (pending s)),
              s\<lparr>pending := (pending s)\<lparr>tb_next_id := Suc (tb_next_id (pending s))\<rparr>\<rparr>)"

text \<open>
  \<^verbatim>\<open>with db.open_session() as session:\<close> around a body. The session starts from
  the database. An exception leaves the block with the database as the last commit
  left it; a normal exit commits when \<open>exit_commits\<close> says so. The result is the
  exception raised (if any), the database and the log lines written.
\<close>

definition open_session ::
  "env \<Rightarrow> unit prog \<Rightarrow> store \<Rightarrow> error option \<times> store \<times> log_entry list" where
  "open_session env body db =
     (case body \<lparr>persisted = db, pending = db, log_lines = []\<rparr> of
        (Inl e, s) \<Rightarrow> (Some e, persisted s, log_lines s)
      | (Inr _, s) \<Rightarrow>
          (if exit_commits env
           then (case commit env s of
                   (Inl e, s') \<Rightarrow> (Some e, persisted s', log_lines s')
                 | (Inr _, s') \<Rightarrow> (None, persisted s', log_lines s'))
           else (None, persisted s, log_lines s)))"

section \<open>\<^verbatim>\<open>remove_previous_events\<close>\<close>

definition same_event :: "event \<Rightarrow> db_event \<Rightarrow> bool" where
  "same_event ev e \<longleftrightarrow> de_name e = ev_name ev \<and> de_source e = ev_source ev"

definition mpointing_queued :: "db_event \<Rightarrow> db_mpointing \<Rightarrow> bool" where
  "mpointing_queued db_ev m \<longleftrightarrow>
     mp_event_id m = Some (de_id db_ev) \<and> mp_status m \<in> set [''scheduled'', ''unscheduled'']"

definition pointing_pending :: "db_event \<Rightarrow> db_pointing \<Rightarrow> bool" where
  "pointing_pending db_ev p \<longleftrightarrow>
     pt_event_id p = Some (de_id db_ev) \<and> pt_status p = ''pending''"

text \<open>The body of the loop over the previous entries of the event.\<close>

definition delete_event_pointings :: "env \<Rightarrow> db_event \<Rightarrow> unit prog" where
  "delete_event_pointings env db_ev s =
     (let db_mpointings = filter (mpointing_queued db_ev) (tb_mpointings (pending s));
          db_pointings = filter (pointing_pending db_ev) (tb_pointings (pending s));
          s1 = s\<lparr>pending := (pending s)
                 \<lparr>tb_mpointings :=
                    map (\<lambda>m. if mpointing_queued db_ev m then m\<lparr>mp_status := ''deleted''\<rparr> else m)
                      (tb_mpointings (pending s)),
                  tb_pointings :=
                    map (\<lambda>p. if pointing_pending db_ev p then p\<lparr>pt_status := ''deleted''\<rparr> else p)
                      (tb_pointings (pending s))\<rparr>\<rparr>
      in then_do (commit env) (\<lambda>_.
           if length db_mpointings > 0 \<or> length db_pointings > 0
           then log_call INFO ''Deleted {} Mpointings and {} Pointings from previous Event {}''
                  [ANat (length db_mpointings), ANat (length db_pointings), AStr (de_ivorn db_ev)]
           else ret ()) s1)"

fun delete_loop :: "env \<Rightarrow> db_event list \<Rightarrow> unit prog" where
  "delete_loop env [] = ret ()"
| "delete_loop env (db_ev # rest) =
     then_do (delete_event_pointings env db_ev) (\<lambda>_. delete_loop env rest)"

definition remove_previous_events_body :: "env \<Rightarrow> event \<Rightarrow> unit prog" where
  "remove_previous_events_body env ev s =
     (let db_events = filter (same_event ev) (tb_events (pending s)) in
      if db_events = []
      then log_call INFO ''Event {} has no previous entry in the database'' [AStr (ev_name ev)] s
      else if list_ex (\<lambda>e. de_ivorn e = ev_ivorn ev) db_events
      then raise (ValueError (''ivorn='' @ ev_ivorn ev @ '' already exists in the database'')) s
      else then_do
             (log_call DEBUG ''Event {} has {} previous entries in the database''
                [AStr (ev_name ev), ANat (length db_events)])
             (\<lambda>_. delete_loop env db_events) s)"

definition remove_previous_events ::
  "env \<Rightarrow> event \<Rightarrow> store \<Rightarrow> error option \<times> store \<times> log_entry list" where
  "remove_previous_events env ev = open_session env (remove_previous_events_body env ev)"

section \<open>\<^verbatim>\<open>add_to_database\<close>\<close>

definition DEFAULT_USER :: string where
  "DEFAULT_USER = ''goto''"

definition DEFAULT_PW :: string where
  "DEFAULT_PW = ''gotoobs''"

definition DEFAULT_NAME :: string where
  "DEFAULT_NAME = ''GOTO automated alerts''"

text \<open>
  \<^verbatim>\<open>get_user\<close>: \<^verbatim>\<open>db.get_user\<close> raises \<^verbatim>\<open>ValueError\<close> when no user has the
  name, and a new \<^verbatim>\<open>User\<close> object is made then.
\<close>

definition get_user :: "db_user prog" where
  "get_user s =
     (case find (\<lambda>u. us_username u = DEFAULT_USER) (tb_users (pending s)) of
        Some user \<Rightarrow> ret user s
      | None \<Rightarrow>
          then_do alloc (\<lambda>i.
            ret \<lparr>us_id = i, us_username = DEFAULT_USER, us_password = DEFAULT_PW,
                 us_full_name = DEFAULT_NAME\<rparr>) s)"

definition get_grid :: "db_grid prog" where
  "get_grid s =
     (let db_grids = tb_grids (pending s) in
      if db_grids = [] then raise (ValueError ''No defined Grids found!'') s
      else ret (last db_grids) s)"

text \<open>\<^verbatim>\<open>xs[:n]\<close>: a negative \<open>n\<close> counts from the end.\<close>

definition py_slice_to :: "'a list \<Rightarrow> int \<Rightarrow> 'a list" where
  "py_slice_to xs n =
     (if 0 \<le> n then take (nat n) xs else take (length xs - nat (- n)) xs)"

text \<open>\<^verbatim>\<open>max(xs)\<close> raises \<^verbatim>\<open>ValueError\<close> on an empty sequence.\<close>

definition py_max :: "real list \<Rightarrow> error + real" where
  "py_max xs =
     (case xs of
        [] \<Rightarrow> Inl (ValueError ''max() arg is an empty sequence'')
      | x # rest \<Rightarrow> Inr (fold max rest x))"

text \<open>\<^verbatim>\<open>query.one_or_none()\<close> on the rows that match.\<close>

definition one_or_none :: "'a list \<Rightarrow> error + 'a option" where
  "one_or_none rows =
     (case rows of
        [] \<Rightarrow> Inr None
      | [x] \<Rightarrow> Inr (Some x)
      | _ \<Rightarrow> Inl MultipleResultsFound)"

definition session_add_event :: "db_event \<Rightarrow> unit prog" where
  "session_add_event e s =
     (Inr (), s\<lparr>pending := (pending s)\<lparr>tb_events := tb_events (pending s) @ [e]\<rparr>\<rparr>)"

definition session_add_survey :: "db_survey \<Rightarrow> unit prog" where
  "session_add_survey sv s =
     (Inr (), s\<lparr>pending := (pending s)\<lparr>tb_surveys := tb_surveys (pending s) @ [sv]\<rparr>\<rparr>)"

text \<open>
  \<^verbatim>\<open>db.insert_items(session, mpointings)\<close>: the Mpointings enter the session with
  the rows they own (exposure sets, pointings, survey tile) and their user, when
  the user is a new one.
\<close>

definition insert_items :: "mpointing list \<Rightarrow> unit prog" where
  "insert_items mps s =
     (Inr (), s\<lparr>pending := (pending s)
        \<lparr>tb_mpointings := tb_mpointings (pending s) @ map mo_row mps,
         tb_exposure_sets := tb_exposure_sets (pending s) @ concat (map mo_exposure_sets mps),
         tb_pointings := tb_pointings (pending s) @ concat (map mo_pointings mps),
         tb_survey_tiles := tb_survey_tiles (pending s) @ List.map_filter mo_survey_tile mps,
         tb_users := fold (\<lambda>m us. if mo_user m \<in> set us then us else us @ [mo_user m]) mps
                       (tb_users (pending s))\<rparr>\<rparr>)"

text \<open>
  Lines 223 to 228: the masked table cut to \<^verbatim>\<open>tile_limit\<close> rows, then to the rows
  above \<^verbatim>\<open>prob_limit\<close> when that limit is positive.
\<close>

definition limit_tiles :: "table_row list \<Rightarrow> int \<Rightarrow> real \<Rightarrow> table_row list" where
  "limit_tiles masked tile_limit prob_limit =
     (let tile_table = py_slice_to masked tile_limit in
      if prob_limit > 0 then filter (\<lambda>r. tr_prob r > prob_limit) tile_table
      else tile_table)"

text \<open>
  Lines 216 to 245, the tiled case before the Mpointings: the grid, the tile
  table cut at \<^verbatim>\<open>tile_limit\<close> and \<^verbatim>\<open>prob_limit\<close>, and the Survey. The value is
  \<open>None\<close> when the function returns at line 238 (no tile left), and otherwise the
  local variables \<^verbatim>\<open>db_grid\<close>, \<^verbatim>\<open>tile_table\<close> and \<^verbatim>\<open>db_survey\<close>.
\<close>

definition select_tiles ::
  "env \<Rightarrow> event \<Rightarrow> db_event \<Rightarrow> (db_grid \<times> table_row list \<times> db_survey) option prog" where
  "select_tiles env ev db_ev =
     then_do get_grid (\<lambda>db_grid.
     then_do (log_call INFO ''Applying to Grid {}'' [AStr (dg_name db_grid)]) (\<lambda>_.
     let tabs = get_grid_tiles (table_sort env) (apply_skymap env db_grid ev) in
     then_do (lift_err (getitem ''tile_limit'' (st_tile_limit (ev_strategy ev)))) (\<lambda>tile_limit.
     then_do (lift_err (getitem ''prob_limit'' (st_prob_limit (ev_strategy ev)))) (\<lambda>prob_limit.
     let tile_table = limit_tiles (masked_table tabs) tile_limit prob_limit in
     then_do (log_call DEBUG ''Masked tile table has {} entries''
                [ANat (length tile_table)]) (\<lambda>_.
     if length tile_table = 0
     then
       then_do (log_call WARNING ''No tiles passed filtering, no pointings to add'' []) (\<lambda>_.
       then_do (lift_err (py_max (map tr_prob (full_table tabs)))) (\<lambda>highest.
       then_do (log_call DEBUG ''Highest tile has {:.2f}%'' [AReal (highest * 100)]) (\<lambda>_.
         ret None)))
     else
       then_do alloc (\<lambda>i.
       let db_survey = \<lparr>sv_id = i, sv_name = ev_name ev, sv_grid_id = dg_id db_grid,
                        sv_event_id = de_id db_ev\<rparr> in
       then_do (log_call DEBUG ''Adding Survey to database'' []) (\<lambda>_.
       then_do (session_add_survey db_survey) (\<lambda>_.
         ret (Some (db_grid, tile_table, db_survey))))))))))"

text \<open>\<^verbatim>\<open>db.Mpointing(object_name=.., ra=.., dec=.., **mp_data)\<close>.\<close>

definition new_mpointing ::
  "env \<Rightarrow> string \<Rightarrow> real option \<Rightarrow> real option \<Rightarrow> mp_data \<Rightarrow> db_mpointing prog" where
  "new_mpointing env object_name ra dec mpd =
     then_do alloc (\<lambda>i.
       ret \<lparr>mp_id = i, mp_object_name = object_name, mp_ra = ra, mp_dec = dec,
            mp_data = mpd, mp_status = new_status env, mp_user_id = None,
            mp_event_id = None, mp_grid_tile_id = None, mp_survey_tile_id = None\<rparr>)"

text \<open>
  The loop \<^verbatim>\<open>for exp_data in expsets\<close> that makes an \<^verbatim>\<open>ExposureSet\<close> and
  appends it to \<^verbatim>\<open>db_mpointing.exposure_sets\<close> (lines 262 to 264, and again
  lines 297 to 299).
\<close>

fun attach_exposure_sets :: "exp_data list \<Rightarrow> mpointing \<Rightarrow> mpointing prog" where
  "attach_exposure_sets [] m = ret m"
| "attach_exposure_sets (x # xs) m =
     then_do alloc (\<lambda>i.
       attach_exposure_sets xs
         (m\<lparr>mo_exposure_sets := mo_exposure_sets m @
              [\<lparr>es_id = i, es_data = x, es_mpointing_id = Some (mp_id (mo_row m))\<rparr>]\<rparr>))"

text \<open>Lines 253 to 267: the single Mpointing of an event that is not on the grid.\<close>

definition single_mpointing ::
  "env \<Rightarrow> event \<Rightarrow> mp_data \<Rightarrow> exp_data list \<Rightarrow> db_event \<Rightarrow> db_user \<Rightarrow> mpointing prog" where
  "single_mpointing env ev mpd expsets db_ev db_user =
     then_do (new_mpointing env (ev_name ev) (Some (fst (ev_coord ev)))
                (Some (snd (ev_coord ev))) mpd) (\<lambda>row.
     attach_exposure_sets expsets
       \<lparr>mo_row = row\<lparr>mp_user_id := Some (us_id db_user), mp_event_id := Some (de_id db_ev)\<rparr>,
        mo_user = db_user, mo_survey_tile = None, mo_exposure_sets = [],
        mo_pointings = []\<rparr>)"

text \<open>
  Lines 271 to 290, the body of the loop over \<^verbatim>\<open>tile_table\<close>. The value holds what
  the iteration assigns to \<^verbatim>\<open>db_grid_tile\<close>, \<^verbatim>\<open>db_survey_tile\<close> and
  \<^verbatim>\<open>db_mpointing\<close>.
\<close>

definition tile_mpointing ::
  "env \<Rightarrow> event \<Rightarrow> mp_data \<Rightarrow> db_event \<Rightarrow> db_user \<Rightarrow> db_grid \<Rightarrow> db_survey \<Rightarrow> table_row \<Rightarrow>
     (db_grid_tile option \<times> db_survey_tile \<times> mpointing) prog" where
  "tile_mpointing env ev mpd db_ev db_user db_grid db_survey row s =
     then_do (lift_err (one_or_none
                (filter (\<lambda>g. gt_grid_id g = dg_id db_grid \<and> gt_name g = tr_tilename row)
                   (tb_grid_tiles (pending s))))) (\<lambda>db_grid_tile.
     then_do alloc (\<lambda>i.
     let db_survey_tile = \<lparr>stl_id = i, stl_weight = tr_prob row,
                           stl_survey_id = sv_id db_survey,
                           stl_grid_tile_id = map_option gt_id db_grid_tile\<rparr> in
     then_do (new_mpointing env (ev_name ev @ ''_'' @ tr_tilename row) None None mpd) (\<lambda>m.
       ret (db_grid_tile, db_survey_tile,
            \<lparr>mo_row = m\<lparr>mp_user_id := Some (us_id db_user),
                        mp_grid_tile_id := map_option gt_id db_grid_tile,
                        mp_survey_tile_id := Some (stl_id db_survey_tile),
                        mp_event_id := Some (de_id db_ev)\<rparr>,
             mo_user = db_user, mo_survey_tile = Some db_survey_tile,
             mo_exposure_sets = [], mo_pointings = []\<rparr>)))) s"

text \<open>
  The loop over \<^verbatim>\<open>tile_table\<close>. Its state is the list \<^verbatim>\<open>mpointings\<close> and the
  local variables \<^verbatim>\<open>db_grid_tile\<close> and \<^verbatim>\<open>db_survey_tile\<close>, which are \<open>None\<close>
  as long as nothing is assigned to them. (The value of \<^verbatim>\<open>db_grid_tile\<close> is
  itself optional: \<^verbatim>\<open>one_or_none\<close> may give Python's \<^verbatim>\<open>None\<close>.)
\<close>

type_synonym tile_locals = "mpointing list \<times> db_grid_tile option option \<times> db_survey_tile option"

fun tile_loop ::
  "(table_row \<Rightarrow> (db_grid_tile option \<times> db_survey_tile \<times> mpointing) prog) \<Rightarrow>
     table_row list \<Rightarrow> tile_locals \<Rightarrow> tile_locals prog" where
  "tile_loop body [] st = ret st"
| "tile_loop body (row # rows) (mpointings, db_grid_tile, db_survey_tile) =
     then_do (body row) (\<lambda>(g, t, m). tile_loop body rows (mpointings @ [m], Some g, Some t))"

text \<open>
  Lines 301 to 307: the first Pointing of an Mpointing. \<^verbatim>\<open>db_grid_tile\<close> and
  \<^verbatim>\<open>db_survey_tile\<close> are the function's local variables, as the code before the
  loop left them; reading one that was never assigned raises
  \<^verbatim>\<open>UnboundLocalError\<close>.
\<close>

definition first_pointing ::
  "env \<Rightarrow> db_event \<Rightarrow> db_grid_tile option option \<Rightarrow> db_survey_tile option \<Rightarrow> mpointing \<Rightarrow>
     mpointing prog" where
  "first_pointing env db_ev db_grid_tile db_survey_tile m =
     then_do alloc (\<lambda>i.
     let p1 = (get_next_pointing env m)\<lparr>pt_id := i, pt_event_id := Some (de_id db_ev)\<rparr> in
     case db_grid_tile of
       None \<Rightarrow> raise (UnboundLocalError ''db_grid_tile'')
     | Some g \<Rightarrow>
         let p2 = p1\<lparr>pt_grid_tile_id := map_option gt_id g\<rparr> in
         (case db_survey_tile of
            None \<Rightarrow> raise (UnboundLocalError ''db_survey_tile'')
          | Some t \<Rightarrow>
              let p3 = p2\<lparr>pt_survey_tile_id := Some (stl_id t)\<rparr> in
              ret (m\<lparr>mo_pointings := mo_pointings m @
                        [p3\<lparr>pt_mpointing_id := Some (mp_id (mo_row m))\<rparr>]\<rparr>)))"

text \<open>Lines 295 to 307, the loop \<^verbatim>\<open>for db_mpointing in mpointings\<close>.\<close>

fun finish_mpointings ::
  "env \<Rightarrow> exp_data list \<Rightarrow> db_event \<Rightarrow> db_grid_tile option option \<Rightarrow> db_survey_tile option \<Rightarrow>
     mpointing list \<Rightarrow> mpointing list prog" where
  "finish_mpointings env expsets db_ev db_grid_tile db_survey_tile [] = ret []"
| "finish_mpointings env expsets db_ev db_grid_tile db_survey_tile (m # ms) =
     then_do (attach_exposure_sets expsets m) (\<lambda>m1.
     then_do (first_pointing env db_ev db_grid_tile db_survey_tile m1) (\<lambda>m2.
     then_do (finish_mpointings env expsets db_ev db_grid_tile db_survey_tile ms) (\<lambda>ms2.
       ret (m2 # ms2))))"

text \<open>Lines 313 to 319.\<close>

definition commit_or_rollback :: "env \<Rightarrow> unit prog" where
  "commit_or_rollback env s =
     (case commit env s of
        (Inl e, s') \<Rightarrow> (Inl e, rollback s')
      | (Inr u, s') \<Rightarrow> (Inr u, s'))"

text \<open>
  Lines 250 to 293: the list \<^verbatim>\<open>mpointings\<close>. \<open>ctx\<close> holds the local variables
  \<^verbatim>\<open>db_grid\<close>, \<^verbatim>\<open>tile_table\<close> and \<^verbatim>\<open>db_survey\<close>, assigned only in the tiled
  case.
\<close>

definition create_mpointings ::
  "env \<Rightarrow> event \<Rightarrow> mp_data \<Rightarrow> exp_data list \<Rightarrow> db_event \<Rightarrow>
     (db_grid \<times> table_row list \<times> db_survey) option \<Rightarrow> db_user \<Rightarrow> tile_locals prog" where
  "create_mpointings env ev mpd expsets db_ev ctx db_user =
     then_do (lift_err (getitem ''on_grid'' (st_on_grid (ev_strategy ev)))) (\<lambda>on_grid.
     if \<not> on_grid
     then then_do (single_mpointing env ev mpd expsets db_ev db_user) (\<lambda>m.
            ret ([m], None, None))
     else (case ctx of
             None \<Rightarrow> raise (UnboundLocalError ''tile_table'')
           | Some (db_grid, tile_table, db_survey) \<Rightarrow>
               tile_loop (tile_mpointing env ev mpd db_ev db_user db_grid db_survey)
                 tile_table ([], None, None)))"

text \<open>Lines 247 to 319.\<close>

definition add_mpointings ::
  "env \<Rightarrow> event \<Rightarrow> mp_data \<Rightarrow> exp_data list \<Rightarrow> db_event \<Rightarrow>
     (db_grid \<times> table_row list \<times> db_survey) option \<Rightarrow> unit prog" where
  "add_mpointings env ev mpd expsets db_ev ctx =
     then_do get_user (\<lambda>db_user.
     then_do (create_mpointings env ev mpd expsets db_ev ctx db_user)
       (\<lambda>(mpointings, db_grid_tile, db_survey_tile).
     then_do (finish_mpointings env expsets db_ev db_grid_tile db_survey_tile mpointings)
       (\<lambda>mpointings.
     then_do (log_call DEBUG ''Adding {} Mpointings to database''
                [ANat (length mpointings)]) (\<lambda>_.
     then_do (insert_items mpointings) (\<lambda>_.
       commit_or_rollback env)))))"

text \<open>
  The row \<^verbatim>\<open>db.Event(name=.., ivorn=.., ..)\<close> of an event, with the identifier it
  is given (the expression of lines 201 to 207).
\<close>

definition event_row :: "event \<Rightarrow> nat \<Rightarrow> db_event" where
  "event_row ev i =
     \<lparr>de_id = i, de_name = ev_name ev, de_ivorn = ev_ivorn ev, de_source = ev_source ev,
      de_event_type = ev_type ev, de_time = ev_time ev, de_skymap = ev_skymap_url ev\<rparr>"

definition add_to_database_body :: "env \<Rightarrow> event \<Rightarrow> unit prog" where
  "add_to_database_body env ev =
     then_do (lift_err (get_mpointing_info ev)) (\<lambda>(mpd, expsets).
     then_do alloc (\<lambda>i.
     let db_ev = event_row ev i in
     then_do (log_call DEBUG ''Adding Event to database'' []) (\<lambda>_.
     then_do (session_add_event db_ev) (\<lambda>_.
     if ev_type ev = ''GW_RETRACTION'' then ret ()
     else
       then_do (lift_err (getitem ''on_grid'' (st_on_grid (ev_strategy ev)))) (\<lambda>on_grid.
       if on_grid
       then then_do (select_tiles env ev db_ev) (\<lambda>r.
              case r of
                None \<Rightarrow> ret ()
              | Some ctx \<Rightarrow> add_mpointings env ev mpd expsets db_ev (Some ctx))
       else add_mpointings env ev mpd expsets db_ev None)))))"

definition add_to_database ::
  "env \<Rightarrow> event \<Rightarrow> store \<Rightarrow> error option \<times> store \<times> log_entry list" where
  "add_to_database env ev = open_session env (add_to_database_body env ev)"

section \<open>The database after the Event is added\<close>

text \<open>
  What lines 201 to 209 leave in the session: the database with the row of the
  event, made with the next identifier.
\<close>

definition with_event :: "event \<Rightarrow> store \<Rightarrow> store" where
  "with_event ev db =
     db\<lparr>tb_next_id := Suc (tb_next_id db),
        tb_events := tb_events db @ [event_row ev (tb_next_id db)]\<rparr>"

section \<open>What the specification asks of \<^verbatim>\<open>remove_previous_events\<close>\<close>

text \<open>
  Following the specification's words, not the code: the database after the
  Mpointings (status scheduled or unscheduled) and the pending Pointings of the given
  previous events have been marked deleted. Nothing else changes and no row is
  removed.
\<close>

definition mark_mpointings :: "db_event list \<Rightarrow> db_mpointing list \<Rightarrow> db_mpointing list" where
  "mark_mpointings prior ms =
     map (\<lambda>m. if list_ex (\<lambda>e. mp_event_id m = Some (de_id e)) prior \<and>
                 (mp_status m = ''scheduled'' \<or> mp_status m = ''unscheduled'')
               then m\<lparr>mp_status := ''deleted''\<rparr> else m) ms"

definition mark_pointings :: "db_event list \<Rightarrow> db_pointing list \<Rightarrow> db_pointing list" where
  "mark_pointings prior ps =
     map (\<lambda>p. if list_ex (\<lambda>e. pt_event_id p = Some (de_id e)) prior \<and>
                 pt_status p = ''pending''
               then p\<lparr>pt_status := ''deleted''\<rparr> else p) ps"

definition soft_deleted :: "db_event list \<Rightarrow> store \<Rightarrow> store" where
  "soft_deleted prior db =
     db\<lparr>tb_mpointings := mark_mpointings prior (tb_mpointings db),
        tb_pointings := mark_pointings prior (tb_pointings db)\<rparr>"

section \<open>Transaction discipline\<close>

text \<open>
  Two properties of a statement sequence, used to follow the database through
  \<^verbatim>\<open>add_to_database\<close>: it never touches what is persisted; or it leaves what is
  persisted as it was whenever it raises, and returns normally either with the
  persisted store untouched or with a pending store the engine accepts.
\<close>

definition keeps_persisted :: "'a prog \<Rightarrow> bool" where
  "keeps_persisted m \<longleftrightarrow> (\<forall>s. persisted (snd (m s)) = persisted s)"

definition transactional :: "env \<Rightarrow> 'a prog \<Rightarrow> bool" where
  "transactional env m \<longleftrightarrow>
     (\<forall>s. case m s of
        (Inl e, s') \<Rightarrow> persisted s' = persisted s
      | (Inr x, s') \<Rightarrow> persisted s' = persisted s \<or> commit_error env (pending s') = None)"

section \<open>Statements that return\<close>

text \<open>
  \<open>same_tables s s'\<close>: the session \<open>s'\<close> is \<open>s\<close> but for the identifier counter.
  \<open>yields m s P\<close>: from \<open>s\<close>, the statements \<open>m\<close> return normally, with a value
  that satisfies \<open>P\<close>, and have only drawn identifiers.
\<close>

definition same_tables :: "session \<Rightarrow> session \<Rightarrow> bool" where
  "same_tables s s' \<longleftrightarrow> (\<exists>k. s' = s\<lparr>pending := (pending s)\<lparr>tb_next_id := k\<rparr>\<rparr>)"

definition yields :: "'a prog \<Rightarrow> session \<Rightarrow> ('a \<Rightarrow> bool) \<Rightarrow> bool" where
  "yields m s P \<longleftrightarrow> (\<exists>x s'. m s = (Inr x, s') \<and> same_tables s s' \<and> P x)"

section \<open>Example inputs\<close>

definition example_strategy :: strategy where
  "example_strategy =
     \<lparr>st_exposure_sets_dict =
        Some [\<lparr>ed_num_exp = Some 2, ed_exptime = Some 60, ed_filt = Some ''L''\<rparr>,
              \<lparr>ed_num_exp = Some 1, ed_exptime = Some 10, ed_filt = Some ''R''\<rparr>],
      st_start_time = Some ''2019-01-01 00:00:00'',
      st_stop_time = Some ''2019-01-04 00:00:00'',
      st_rank = Some 2,
      st_cadence_dict = Some \<lparr>cd_num_todo = Some 3, cd_wait_time = Some (WaitSingle 60)\<rparr>,
      st_constraints_dict =
        Some \<lparr>cn_max_sunalt = Some (- 15), cn_min_alt = Some 30,
              cn_min_moonsep = Some 30, cn_max_moon = Some ''B''\<rparr>,
      st_on_grid = Some True,
      st_tile_limit = Some 5,
      st_prob_limit = Some 0\<rparr>"

definition example_event :: event where
  "example_event =
     \<lparr>ev_name = ''GW1'', ev_ivorn = ''ivo://gw1/2'', ev_source = ''LVC'', ev_type = ''GW_CBC'',
      ev_time = ''2019-01-01 00:00:00'', ev_skymap_url = None, ev_coord = (10, 20),
      ev_strategy = example_strategy\<rparr>"

definition example_mp_data :: mp_data where
  "example_mp_data =
     \<lparr>md_too = True, md_min_time = 220, md_valid_time = - 1,
      md_start_time = ''2019-01-01 00:00:00'', md_stop_time = ''2019-01-04 00:00:00'',
      md_start_rank = 2, md_num_todo = 3, md_wait_time = WaitSingle 60,
      md_max_sunalt = - 15, md_min_alt = 30, md_min_moonsep = 30, md_max_moon = ''B''\<rparr>"

definition example_expsets :: "exp_data list" where
  "example_expsets =
     [\<lparr>xd_num_exp = 2, xd_exptime = 60, xd_filt = ''L'', xd_binning = 1,
       xd_imgtype = ''SCIENCE''\<rparr>,
      \<lparr>xd_num_exp = 1, xd_exptime = 10, xd_filt = ''R'', xd_binning = 1,
       xd_imgtype = ''SCIENCE''\<rparr>]"

definition example_point_source :: "sky_tile list" where
  "example_point_source =
     [\<lparr>sk_row = \<lparr>tr_tilename = ''T0001'', tr_ra = 10, tr_dec = 20, tr_prob = 1 / 50\<rparr>,
       sk_contours = [99 / 100, 1]\<rparr>,
      \<lparr>sk_row = \<lparr>tr_tilename = ''T0002'', tr_ra = 12, tr_dec = 20, tr_prob = 19 / 20\<rparr>,
       sk_contours = [19 / 20, 1]\<rparr>]"

definition example_pointing :: db_pointing where
  "example_pointing =
     \<lparr>pt_id = 0, pt_status = ''pending'', pt_event_id = None, pt_grid_tile_id = None,
      pt_survey_tile_id = None, pt_mpointing_id = None\<rparr>"

definition example_env :: env where
  "example_env =
     \<lparr>apply_skymap = (\<lambda>_ _. example_point_source),
      table_sort = sort_key tr_prob,
      commit_error = (\<lambda>_. None),
      exit_commits = True,
      get_next_pointing = (\<lambda>_. example_pointing),
      new_status = ''unscheduled''\<rparr>"

definition example_grid :: db_grid where
  "example_grid =
     \<lparr>dg_id = 1, dg_name = ''GOTO4'', dg_ra_fov = 4, dg_dec_fov = 2, dg_ra_overlap = 1 / 10,
      dg_dec_overlap = 1 / 10, dg_algorithm = ''minverlap''\<rparr>"

definition example_prior_event :: db_event where
  "example_prior_event =
     \<lparr>de_id = 4, de_name = ''GW1'', de_ivorn = ''ivo://gw1/1'', de_source = ''LVC'',
      de_event_type = ''GW_CBC'', de_time = ''2019-01-01 00:00:00'', de_skymap = None\<rparr>"

definition example_prior_mpointing :: db_mpointing where
  "example_prior_mpointing =
     \<lparr>mp_id = 5, mp_object_name = ''GW1_T0002'', mp_ra = None, mp_dec = None,
      mp_data = example_mp_data, mp_status = ''scheduled'', mp_user_id = None,
      mp_event_id = Some 4, mp_grid_tile_id = Some 3, mp_survey_tile_id = None\<rparr>"

definition example_db :: store where
  "example_db =
     \<lparr>tb_events = [example_prior_event],
      tb_grids = [example_grid],
      tb_grid_tiles = [\<lparr>gt_id = 2, gt_grid_id = 1, gt_name = ''T0001''\<rparr>,
                       \<lparr>gt_id = 3, gt_grid_id = 1, gt_name = ''T0002''\<rparr>],
      tb_surveys = [],
      tb_survey_tiles = [],
      tb_users = [],
      tb_mpointings = [example_prior_mpointing],
      tb_exposure_sets = [],
      tb_pointings =
        [\<lparr>pt_id = 6, pt_status = ''pending'', pt_event_id = Some 4, pt_grid_tile_id = Some 3,
          pt_survey_tile_id = None, pt_mpointing_id = Some 5\<rparr>,
         \<lparr>pt_id = 7, pt_status = ''running'', pt_event_id = Some 4, pt_grid_tile_id = Some 3,
          pt_survey_tile_id = None, pt_mpointing_id = Some 5\<rparr>],
      tb_next_id = 8\<rparr>"


definition example_retraction :: event where
  "example_retraction = example_event\<lparr>ev_type := ''GW_RETRACTION''\<rparr>"

definition example_bare_retraction :: event where
  "example_bare_retraction =
     example_retraction
       \<lparr>ev_strategy :=
          \<lparr>st_exposure_sets_dict = None, st_start_time = None, st_stop_time = None,
           st_rank = None, st_cadence_dict = None, st_constraints_dict = None,
           st_on_grid = None, st_tile_limit = None, st_prob_limit = None\<rparr>\<rparr>"

definition example_strict_event :: event where
  "example_strict_event =
     example_event\<lparr>ev_strategy := example_strategy\<lparr>st_prob_limit := Some 1\<rparr>\<rparr>"

definition example_untiled_event :: event where
  "example_untiled_event =
     example_event\<lparr>ev_strategy := example_strategy\<lparr>st_on_grid := Some False\<rparr>\<rparr>"

definition example_sky :: "sky_tile list" where
  "example_sky =
     [\<lparr>sk_row = \<lparr>tr_tilename = ''T0001'', tr_ra = 10, tr_dec = 20, tr_prob = 3 / 10\<rparr>,
       sk_contours = [1 / 2, 7 / 10]\<rparr>,
      \<lparr>sk_row = \<lparr>tr_tilename = ''T0002'', tr_ra = 12, tr_dec = 20, tr_prob = 3 / 5\<rparr>,
       sk_contours = [1 / 5, 2 / 5]\<rparr>,
      \<lparr>sk_row = \<lparr>tr_tilename = ''T0003'', tr_ra = 14, tr_dec = 20, tr_prob = 1 / 10\<rparr>,
       sk_contours = [19 / 20, 1]\<rparr>]"

definition example_two_tile_env :: env where
  "example_two_tile_env = example_env\<lparr>apply_skymap := (\<lambda>_ _. example_sky)\<rparr>"

definition example_empty_db :: store where
  "example_empty_db = example_db\<lparr>tb_events := [], tb_mpointings := [], tb_pointings := []\<rparr>"

section \<open>Properties of \<^verbatim>\<open>get_mpointing_info\<close>\<close>

lemma bind_err_Inr_iff:
  "bind_err m f = Inr y \<longleftrightarrow> (\<exists>x. m = Inr x \<and> f x = Inr y)"
  by (cases m) (simp_all add: bind_err_def)

lemma bind_err_Inl_iff:
  "bind_err m f = Inl e \<longleftrightarrow> m = Inl e \<or> (\<exists>x. m = Inr x \<and> f x = Inl e)"
  by (cases m) (simp_all add: bind_err_def)

lemma getitem_Inr_iff: "getitem k v = Inr x \<longleftrightarrow> v = Some x"
  by (cases v) (simp_all add: getitem_def)

lemma foldl_min_time_acc:
  "foldl (\<lambda>acc x. acc + (xd_exptime x + 30) * real_of_int (xd_num_exp x)) a xs =
     a + (\<Sum>x\<leftarrow>xs. (xd_exptime x + 30) * real_of_int (xd_num_exp x))"
  by (induction xs arbitrary: a) (simp_all add: add.assoc)

lemma min_time_of_sum:
  "min_time_of xs = (\<Sum>x\<leftarrow>xs. (xd_exptime x + 30) * real_of_int (xd_num_exp x))"
  by (simp add: min_time_of_def foldl_min_time_acc)

lemma get_mpointing_info_min_time:
  assumes "get_mpointing_info ev = Inr (mp, es)"
  shows "md_min_time mp = min_time_of es"
  using assms
  by (auto simp: get_mpointing_info_def Let_def bind_err_Inr_iff)

lemma expsets_loop_entries:
  "expsets_loop ds acc = Inr es \<Longrightarrow>
     \<exists>new. es = acc @ new \<and>
       map (\<lambda>x. (Some (xd_num_exp x), Some (xd_exptime x))) new =
       map (\<lambda>d. (ed_num_exp d, ed_exptime d)) ds"
proof (induction ds arbitrary: acc)
  case Nil
  then show ?case by simp
next
  case (Cons d ds)
  from Cons.prems obtain x where x: "expset_entry d = Inr x"
    and rest: "expsets_loop ds (acc @ [x]) = Inr es"
    by (auto simp: bind_err_Inr_iff)
  from x have dx: "ed_num_exp d = Some (xd_num_exp x)" "ed_exptime d = Some (xd_exptime x)"
    by (auto simp: expset_entry_def bind_err_Inr_iff getitem_Inr_iff)
  from Cons.IH [OF rest] obtain new where
    "es = (acc @ [x]) @ new"
    "map (\<lambda>x. (Some (xd_num_exp x), Some (xd_exptime x))) new =
       map (\<lambda>d. (ed_num_exp d, ed_exptime d)) ds"
    by blast
  with dx show ?case
    by (intro exI [of _ "x # new"]) simp
qed

lemma get_mpointing_info_expsets:
  assumes "get_mpointing_info ev = Inr (mp, es)"
  shows "\<exists>ds. st_exposure_sets_dict (ev_strategy ev) = Some ds \<and>
           map (\<lambda>x. (Some (xd_num_exp x), Some (xd_exptime x))) es =
           map (\<lambda>d. (ed_num_exp d, ed_exptime d)) ds"
proof -
  from assms obtain ds where ds: "st_exposure_sets_dict (ev_strategy ev) = Some ds"
    and loop: "expsets_loop ds [] = Inr es"
    by (auto simp: get_mpointing_info_def Let_def bind_err_Inr_iff getitem_Inr_iff)
  from expsets_loop_entries [OF loop] ds show ?thesis by auto
qed

lemma example_get_mpointing_info:
  "get_mpointing_info example_event = Inr (example_mp_data, example_expsets)"
  by (simp add: get_mpointing_info_def example_event_def example_strategy_def
      example_mp_data_def example_expsets_def bind_err_def getitem_def expset_entry_def
      min_time_of_def)

section \<open>Minimum visit time\<close>

text \<open>
  Claim C10. When \<^verbatim>\<open>get_mpointing_info\<close> returns, \<open>min_time\<close> is the sum over the
  exposure sets of (exptime + 30) times num_exp, the exposure sets being the entries
  of the strategy's \<^verbatim>\<open>exposure_sets_dict\<close>; for the entries (num_exp = 2,
  exptime = 60) and (num_exp = 1, exptime = 10) it is 220.
\<close>

theorem min_time_is_sum_of_exposures:
  assumes "get_mpointing_info ev = Inr (mp, es)"
  shows "md_min_time mp = (\<Sum>x\<leftarrow>es. (xd_exptime x + 30) * real_of_int (xd_num_exp x)) \<and>
         (\<exists>ds. st_exposure_sets_dict (ev_strategy ev) = Some ds \<and>
            map (\<lambda>x. (Some (xd_num_exp x), Some (xd_exptime x))) es =
            map (\<lambda>d. (ed_num_exp d, ed_exptime d)) ds) \<and>
         (map (\<lambda>x. (xd_num_exp x, xd_exptime x)) es = [(2, 60), (1, 10)] \<longrightarrow>
            md_min_time mp = 220)"
proof -
  have sum: "md_min_time mp = (\<Sum>x\<leftarrow>es. (xd_exptime x + 30) * real_of_int (xd_num_exp x))"
    using get_mpointing_info_min_time [OF assms] by (simp add: min_time_of_sum)
  have "md_min_time mp = 220"
    if "map (\<lambda>x. (xd_num_exp x, xd_exptime x)) es = [(2, 60), (1, 10)]"
  proof -
    from that obtain a b where es: "es = [a, b]"
      and "xd_num_exp a = 2" "xd_exptime a = 60" "xd_num_exp b = 1" "xd_exptime b = 10"
      by auto
    then show ?thesis using sum by simp
  qed
  with sum get_mpointing_info_expsets [OF assms] show ?thesis by blast
qed

theorem min_time_is_sum_of_exposures_witness:
  "get_mpointing_info example_event = Inr (example_mp_data, example_expsets) \<and>
   map (\<lambda>x. (xd_num_exp x, xd_exptime x)) example_expsets = [(2, 60), (1, 10)] \<and>
   md_min_time example_mp_data = 220"
proof -
  have h: "get_mpointing_info example_event = Inr (example_mp_data, example_expsets)"
    by (rule example_get_mpointing_info)
  have m: "map (\<lambda>x. (xd_num_exp x, xd_exptime x)) example_expsets = [(2, 60), (1, 10)]"
    by (simp add: example_expsets_def)
  from min_time_is_sum_of_exposures [OF h] m have "md_min_time example_mp_data = 220"
    by blast
  with h m show ?thesis by simp
qed

section \<open>The containment mask of \<^verbatim>\<open>get_grid_tiles\<close>\<close>

lemma apply_mask_map: "apply_mask (map f xs) (map p xs) = map f (filter p xs)"
  by (induction xs) (simp_all add: apply_mask_def)

lemma no_true_iff: "length (filter (\<lambda>b. b) (map p xs)) < 1 \<longleftrightarrow> (\<forall>x\<in>set xs. \<not> p x)"
proof -
  have "length (filter (\<lambda>b. b) (map p xs)) < 1 \<longleftrightarrow> filter (\<lambda>b. b) (map p xs) = []"
    by (simp only: less_one length_0_conv)
  also have "\<dots> \<longleftrightarrow> (\<forall>b\<in>set (map p xs). \<not> b)"
    by (simp only: filter_empty_conv)
  also have "\<dots> \<longleftrightarrow> (\<forall>x\<in>set xs. \<not> p x)"
    by simp
  finally show ?thesis .
qed

lemma masked_table_mean:
  assumes "\<exists>t\<in>set grid. mean_below (sk_contours t)"
  shows "masked_table (get_grid_tiles srt grid) =
           rev (srt (map sk_row (filter (\<lambda>t. mean_below (sk_contours t)) grid)))"
proof -
  from assms have c: "\<not> length (filter (\<lambda>b. b) (map (\<lambda>t. mean_below (sk_contours t)) grid)) < 1"
    unfolding no_true_iff by blast
  show ?thesis
    unfolding get_grid_tiles_def Let_def
    by (simp only: c if_False apply_mask_map tables.select_convs)
qed

lemma masked_table_fallback:
  assumes "\<forall>t\<in>set grid. \<not> mean_below (sk_contours t)"
  shows "masked_table (get_grid_tiles srt grid) =
           rev (srt (map sk_row (filter (\<lambda>t. tr_prob (sk_row t) > 9 / 10) grid)))"
proof -
  from assms have c: "length (filter (\<lambda>b. b) (map (\<lambda>t. mean_below (sk_contours t)) grid)) < 1"
    unfolding no_true_iff by blast
  have f: "filter (\<lambda>r. tr_prob r > 9 / 10) (map sk_row grid) =
      map sk_row (filter (\<lambda>t. tr_prob (sk_row t) > 9 / 10) grid)"
    by (induction grid) simp_all
  have "apply_mask (map sk_row grid) (map (\<lambda>r. tr_prob r > 9 / 10) (map sk_row grid)) =
      map sk_row (filter (\<lambda>t. tr_prob (sk_row t) > 9 / 10) grid)"
    using apply_mask_map [of "\<lambda>r. r" "map sk_row grid" "\<lambda>r. tr_prob r > 9 / 10"] f
    by simp
  then show ?thesis
    unfolding get_grid_tiles_def Let_def
    by (simp only: c if_True tables.select_convs)
qed

lemma sorts_by_prob_rows: "sorts_by_prob srt \<Longrightarrow> mset (rev (srt table)) = mset table"
  by (simp add: sorts_by_prob_def)

lemma sorts_by_prob_length: "sorts_by_prob srt \<Longrightarrow> length (srt table) = length table"
  using mset_eq_length [of "srt table" table] by (simp add: sorts_by_prob_def)

lemma sorts_by_prob_single: "sorts_by_prob srt \<Longrightarrow> srt [r] = [r]"
  using mset_single_iff [of "srt [r]" r] by (simp add: sorts_by_prob_def)

lemma sorts_by_prob_sort_key: "sorts_by_prob (sort_key tr_prob)"
  by (simp add: sorts_by_prob_def)

lemma descending_masked_table:
  assumes "sorts_by_prob srt"
  shows "sorted (map tr_prob (rev (masked_table (get_grid_tiles srt grid))))"
  using assms by (simp add: get_grid_tiles_def Let_def sorts_by_prob_def)

text \<open>
  Claim C8. A tile passes the mask when it has pixels and the mean of their contour
  values, the sum over the number, is below 0.9. When some tile passes, the returned
  table holds exactly the rows of the passing tiles; when none does, it holds exactly
  the rows whose \<open>prob\<close> exceeds 0.9. The table is in descending order of \<open>prob\<close>,
  whatever the library's sort does with equal probabilities. So when no tile has a
  mean below 0.9 and exactly one tile has \<open>prob\<close> above 0.9, the returned table is
  that one tile.
\<close>

theorem get_grid_tiles_mask:
  assumes "sorts_by_prob srt"
  shows
    "((\<exists>t\<in>set grid. sk_contours t \<noteq> [] \<and>
          sum_list (sk_contours t) / real (length (sk_contours t)) < 9 / 10) \<longrightarrow>
        mset (masked_table (get_grid_tiles srt grid)) =
          mset (map sk_row
            (filter (\<lambda>t. sk_contours t \<noteq> [] \<and>
                sum_list (sk_contours t) / real (length (sk_contours t)) < 9 / 10) grid))) \<and>
     ((\<forall>t\<in>set grid. \<not> (sk_contours t \<noteq> [] \<and>
          sum_list (sk_contours t) / real (length (sk_contours t)) < 9 / 10)) \<longrightarrow>
        mset (masked_table (get_grid_tiles srt grid)) =
          mset (map sk_row (filter (\<lambda>t. 9 / 10 < tr_prob (sk_row t)) grid))) \<and>
     sorted (map tr_prob (rev (masked_table (get_grid_tiles srt grid)))) \<and>
     ((\<forall>t\<in>set grid. \<not> (sk_contours t \<noteq> [] \<and>
          sum_list (sk_contours t) / real (length (sk_contours t)) < 9 / 10)) \<and>
      filter (\<lambda>t. 9 / 10 < tr_prob (sk_row t)) grid = [t0] \<longrightarrow>
        masked_table (get_grid_tiles srt grid) = [sk_row t0])"
proof -
  let ?pass = "\<lambda>t. sk_contours t \<noteq> [] \<and>
      sum_list (sk_contours t) / real (length (sk_contours t)) < 9 / 10"
  have pass: "mean_below (sk_contours t) = ?pass t" for t :: sky_tile
    by (simp add: mean_below_def)
  have a: "mset (masked_table (get_grid_tiles srt grid)) = mset (map sk_row (filter ?pass grid))"
    if "\<exists>t\<in>set grid. ?pass t"
    using that masked_table_mean [of grid srt] sorts_by_prob_rows [OF assms]
    unfolding pass by simp
  have b: "mset (masked_table (get_grid_tiles srt grid)) =
      mset (map sk_row (filter (\<lambda>t. 9 / 10 < tr_prob (sk_row t)) grid))"
    if "\<forall>t\<in>set grid. \<not> ?pass t"
    using that masked_table_fallback [of grid srt] sorts_by_prob_rows [OF assms]
    unfolding pass by simp
  have c: "masked_table (get_grid_tiles srt grid) = [sk_row t0]"
    if "\<forall>t\<in>set grid. \<not> ?pass t" "filter (\<lambda>t. 9 / 10 < tr_prob (sk_row t)) grid = [t0]"
    using that masked_table_fallback [of grid srt] sorts_by_prob_single [OF assms]
    unfolding pass by simp
  from a b c descending_masked_table [OF assms, of grid] show ?thesis
    by blast
qed

lemma example_masked_table:
  "masked_table (get_grid_tiles (sort_key tr_prob) example_point_source) =
     [\<lparr>tr_tilename = ''T0002'', tr_ra = 12, tr_dec = 20, tr_prob = 19 / 20\<rparr>]"
  by (simp add: get_grid_tiles_def example_point_source_def mean_below_def apply_mask_def
      Let_def)

lemma example_sky_masked_table:
  "masked_table (get_grid_tiles (sort_key tr_prob) example_sky) =
     [\<lparr>tr_tilename = ''T0002'', tr_ra = 12, tr_dec = 20, tr_prob = 3 / 5\<rparr>,
      \<lparr>tr_tilename = ''T0001'', tr_ra = 10, tr_dec = 20, tr_prob = 3 / 10\<rparr>]"
  by (simp add: get_grid_tiles_def example_sky_def mean_below_def apply_mask_def Let_def)

theorem get_grid_tiles_mask_witness:
  "sorts_by_prob (sort_key tr_prob) \<and>
   (\<exists>t\<in>set example_sky. sk_contours t \<noteq> [] \<and>
      sum_list (sk_contours t) / real (length (sk_contours t)) < 9 / 10) \<and>
   mset (masked_table (get_grid_tiles (sort_key tr_prob) example_sky)) =
     {#\<lparr>tr_tilename = ''T0001'', tr_ra = 10, tr_dec = 20, tr_prob = 3 / 10\<rparr>,
       \<lparr>tr_tilename = ''T0002'', tr_ra = 12, tr_dec = 20, tr_prob = 3 / 5\<rparr>#} \<and>
   masked_table (get_grid_tiles (sort_key tr_prob) example_sky) =
     [\<lparr>tr_tilename = ''T0002'', tr_ra = 12, tr_dec = 20, tr_prob = 3 / 5\<rparr>,
      \<lparr>tr_tilename = ''T0001'', tr_ra = 10, tr_dec = 20, tr_prob = 3 / 10\<rparr>] \<and>
   filter (\<lambda>t. sk_contours t \<noteq> [] \<and>
      sum_list (sk_contours t) / real (length (sk_contours t)) < 9 / 10)
     example_point_source = [] \<and>
   filter (\<lambda>t. 9 / 10 < tr_prob (sk_row t)) example_point_source = [example_point_source ! 1] \<and>
   masked_table (get_grid_tiles (sort_key tr_prob) example_point_source) =
     [\<lparr>tr_tilename = ''T0002'', tr_ra = 12, tr_dec = 20, tr_prob = 19 / 20\<rparr>]"
proof -
  let ?pass = "\<lambda>t. sk_contours t \<noteq> [] \<and>
      sum_list (sk_contours t) / real (length (sk_contours t)) < 9 / 10"
  note srt = sorts_by_prob_sort_key
  have p: "\<exists>t\<in>set example_sky. ?pass t"
    by (simp add: example_sky_def)
  have rows: "mset (map sk_row (filter ?pass example_sky)) =
     {#\<lparr>tr_tilename = ''T0001'', tr_ra = 10, tr_dec = 20, tr_prob = 3 / 10\<rparr>,
       \<lparr>tr_tilename = ''T0002'', tr_ra = 12, tr_dec = 20, tr_prob = 3 / 5\<rparr>#}"
    by (simp add: example_sky_def)
  from get_grid_tiles_mask [OF srt, of example_sky] p
  have m: "mset (masked_table (get_grid_tiles (sort_key tr_prob) example_sky)) =
      mset (map sk_row (filter ?pass example_sky))"
    by blast
  have n: "\<forall>t\<in>set example_point_source. \<not> ?pass t"
    by (simp add: example_point_source_def)
  have n': "filter ?pass example_point_source = []"
    by (simp add: example_point_source_def)
  have f: "filter (\<lambda>t. 9 / 10 < tr_prob (sk_row t)) example_point_source =
      [example_point_source ! 1]"
    by (simp add: example_point_source_def)
  from get_grid_tiles_mask [OF srt, of example_point_source "example_point_source ! 1"] n f
  have one: "masked_table (get_grid_tiles (sort_key tr_prob) example_point_source) =
      [sk_row (example_point_source ! 1)]"
    by blast
  have row: "sk_row (example_point_source ! 1) =
      \<lparr>tr_tilename = ''T0002'', tr_ra = 12, tr_dec = 20, tr_prob = 19 / 20\<rparr>"
    by (simp add: example_point_source_def)
  show ?thesis
    using srt p m [unfolded rows] example_sky_masked_table n' f one [unfolded row]
    by blast
qed

section \<open>Statements on the session\<close>

lemma then_do_ret [simp]: "then_do (ret x) f s = f x s"
  by (simp add: then_do_def ret_def)

lemma then_do_raise [simp]: "then_do (raise e) f s = (Inl e, s)"
  by (simp add: then_do_def raise_def)

lemma then_do_log_call [simp]:
  "then_do (log_call lv fmt args) f s = f () (s\<lparr>log_lines := log_lines s @ [(lv, fmt, args)]\<rparr>)"
  by (simp add: then_do_def log_call_def)

lemma then_do_Inr: "m s = (Inr x, s') \<Longrightarrow> then_do m f s = f x s'"
  by (simp add: then_do_def)

lemma then_do_Inl: "m s = (Inl e, s') \<Longrightarrow> then_do m f s = (Inl e, s')"
  by (simp add: then_do_def)

lemma then_do_cases:
  "then_do m f s = (r, s') \<Longrightarrow>
     (\<exists>e. m s = (Inl e, s') \<and> r = Inl e) \<or> (\<exists>x s1. m s = (Inr x, s1) \<and> f x s1 = (r, s'))"
  by (auto simp: then_do_def split: prod.splits sum.splits)

lemma commit_cases:
  "commit env s = (r, s') \<Longrightarrow>
     (\<exists>msg. commit_error env (pending s) = Some msg \<and> r = Inl (DatabaseError msg) \<and> s' = s) \<or>
     (commit_error env (pending s) = None \<and> r = Inr () \<and> s' = s\<lparr>persisted := pending s\<rparr>)"
  by (auto simp: commit_def split: option.splits)

section \<open>\<^verbatim>\<open>remove_previous_events\<close>: duplicates and soft deletion\<close>

lemma delete_event_pointings_error:
  "delete_event_pointings env e s = (Inl err, s') \<Longrightarrow> \<exists>msg. err = DatabaseError msg"
  by (auto simp: delete_event_pointings_def Let_def ret_def log_call_def
      dest!: then_do_cases commit_cases split: if_splits)

lemma delete_loop_error:
  "delete_loop env es s = (Inl err, s') \<Longrightarrow> \<exists>msg. err = DatabaseError msg"
proof (induction es arbitrary: s)
  case Nil
  then show ?case by (simp add: ret_def)
next
  case (Cons e es)
  from then_do_cases [OF Cons.prems [unfolded delete_loop.simps]]
  show ?case
    using delete_event_pointings_error Cons.IH by blast
qed

lemma open_session_error:
  assumes "fst (open_session env body db) = Some err"
  shows "(\<exists>s'. body \<lparr>persisted = db, pending = db, log_lines = []\<rparr> = (Inl err, s')) \<or>
         (\<exists>msg. err = DatabaseError msg)"
  using assms
  by (auto simp: open_session_def split: prod.splits sum.splits if_splits dest!: commit_cases)

lemma remove_previous_events_duplicate_result:
  assumes "list_ex (\<lambda>e. de_ivorn e = ev_ivorn ev) (filter (same_event ev) (tb_events db))"
  shows "remove_previous_events env ev db =
           (Some (ValueError (''ivorn='' @ ev_ivorn ev @ '' already exists in the database'')),
            db, [])"
proof -
  from assms have ne: "filter (same_event ev) (tb_events db) \<noteq> []"
    by auto
  show ?thesis
    using assms ne
    by (simp add: remove_previous_events_def open_session_def
        remove_previous_events_body_def Let_def raise_def)
qed

lemma remove_previous_events_no_duplicate:
  assumes "\<not> list_ex (\<lambda>e. de_ivorn e = ev_ivorn ev) (filter (same_event ev) (tb_events db))"
  shows "fst (remove_previous_events env ev db) \<noteq> Some (ValueError msg)"
proof
  assume "fst (remove_previous_events env ev db) = Some (ValueError msg)"
  from open_session_error [OF this [unfolded remove_previous_events_def]]
  obtain s' where
    b: "remove_previous_events_body env ev \<lparr>persisted = db, pending = db, log_lines = []\<rparr> =
          (Inl (ValueError msg), s')"
    by auto
  show False
  proof (cases "filter (same_event ev) (tb_events db) = []")
    case True
    with b show False
      by (simp add: remove_previous_events_body_def Let_def log_call_def)
  next
    case False
    with b assms have "\<exists>s. delete_loop env (filter (same_event ev) (tb_events db)) s =
        (Inl (ValueError msg), s')"
      by (auto simp: remove_previous_events_body_def Let_def)
    then show False using delete_loop_error by blast
  qed
qed

lemma list_ex_same_event:
  "list_ex (\<lambda>e. de_ivorn e = ev_ivorn ev) (filter (same_event ev) evs) \<longleftrightarrow>
     (\<exists>e\<in>set evs. de_name e = ev_name ev \<and> de_source e = ev_source ev \<and>
        de_ivorn e = ev_ivorn ev)"
  by (auto simp: list_ex_iff same_event_def)

text \<open>
  Claim C3. \<^verbatim>\<open>remove_previous_events\<close> raises the \<^verbatim>\<open>ValueError\<close> of a duplicate
  identifier exactly when some persisted Event has the incoming event's name, source
  and ivorn; then the database is returned as it was, and nothing was written (not
  even a log line).
\<close>

theorem duplicate_ivorn_raises:
  "((\<exists>msg. fst (remove_previous_events env ev db) = Some (ValueError msg)) \<longleftrightarrow>
      (\<exists>e\<in>set (tb_events db). de_name e = ev_name ev \<and> de_source e = ev_source ev \<and>
         de_ivorn e = ev_ivorn ev)) \<and>
   ((\<exists>e\<in>set (tb_events db). de_name e = ev_name ev \<and> de_source e = ev_source ev \<and>
       de_ivorn e = ev_ivorn ev) \<longrightarrow>
      remove_previous_events env ev db =
        (Some (ValueError (''ivorn='' @ ev_ivorn ev @ '' already exists in the database'')),
         db, []))"
  using remove_previous_events_duplicate_result [of ev db env]
    remove_previous_events_no_duplicate [of ev db env]
  unfolding list_ex_same_event
  by (metis fst_conv)


theorem duplicate_ivorn_raises_witness:
  "(\<exists>e\<in>set (tb_events example_db).
      de_name e = ev_name (example_event\<lparr>ev_ivorn := ''ivo://gw1/1''\<rparr>) \<and>
      de_source e = ev_source (example_event\<lparr>ev_ivorn := ''ivo://gw1/1''\<rparr>) \<and>
      de_ivorn e = ev_ivorn (example_event\<lparr>ev_ivorn := ''ivo://gw1/1''\<rparr>)) \<and>
   remove_previous_events example_env (example_event\<lparr>ev_ivorn := ''ivo://gw1/1''\<rparr>) example_db =
     (Some (ValueError ''ivorn=ivo://gw1/1 already exists in the database''), example_db, [])"
proof -
  have h: "\<exists>e\<in>set (tb_events example_db).
      de_name e = ev_name (example_event\<lparr>ev_ivorn := ''ivo://gw1/1''\<rparr>) \<and>
      de_source e = ev_source (example_event\<lparr>ev_ivorn := ''ivo://gw1/1''\<rparr>) \<and>
      de_ivorn e = ev_ivorn (example_event\<lparr>ev_ivorn := ''ivo://gw1/1''\<rparr>)"
    by (simp add: example_db_def example_event_def example_prior_event_def)
  from duplicate_ivorn_raises [of example_env "example_event\<lparr>ev_ivorn := ''ivo://gw1/1''\<rparr>"
      example_db] h
  show ?thesis by simp
qed

lemma mark_mpointings_Cons:
  "mark_mpointings es (mark_mpointings [e] ms) = mark_mpointings (e # es) ms"
  unfolding mark_mpointings_def by (induction ms) auto

lemma mark_pointings_Cons:
  "mark_pointings es (mark_pointings [e] ps) = mark_pointings (e # es) ps"
  unfolding mark_pointings_def by (induction ps) auto

lemma soft_deleted_Cons: "soft_deleted es (soft_deleted [e] p) = soft_deleted (e # es) p"
  by (simp add: soft_deleted_def mark_mpointings_Cons mark_pointings_Cons)

lemma soft_deleted_Nil: "soft_deleted [] p = p"
  by (simp add: soft_deleted_def mark_mpointings_def mark_pointings_def)

lemma delete_event_pointings_ok:
  assumes "\<forall>st. commit_error env st = None"
  shows "fst (delete_event_pointings env e s) = Inr () \<and>
         pending (snd (delete_event_pointings env e s)) = soft_deleted [e] (pending s) \<and>
         persisted (snd (delete_event_pointings env e s)) = soft_deleted [e] (pending s)"
  using assms
  by (simp add: delete_event_pointings_def Let_def then_do_def commit_def ret_def log_call_def
      soft_deleted_def mark_mpointings_def mark_pointings_def mpointing_queued_def
      pointing_pending_def)

lemma delete_loop_ok:
  assumes "\<forall>st. commit_error env st = None"
  shows "fst (delete_loop env es s) = Inr () \<and>
         pending (snd (delete_loop env es s)) = soft_deleted es (pending s) \<and>
         persisted (snd (delete_loop env es s)) =
           (if es = [] then persisted s else soft_deleted es (pending s))"
proof (induction es arbitrary: s)
  case Nil
  show ?case by (simp add: ret_def soft_deleted_Nil)
next
  case (Cons e es)
  obtain s1 where s1: "delete_event_pointings env e s = (Inr (), s1)"
    using delete_event_pointings_ok [OF assms, of e s]
    by (cases "delete_event_pointings env e s") auto
  with delete_event_pointings_ok [OF assms, of e s]
  have p1: "pending s1 = soft_deleted [e] (pending s)"
    and q1: "persisted s1 = soft_deleted [e] (pending s)"
    by simp_all
  have step: "delete_loop env (e # es) s = delete_loop env es s1"
    using s1 by (simp add: then_do_def)
  show ?case
    unfolding step using Cons.IH [of s1] p1 q1
    by (simp add: soft_deleted_Cons)
qed


lemma remove_previous_events_ok:
  assumes prior: "filter (same_event ev) (tb_events db) \<noteq> []"
    and fresh: "\<not> list_ex (\<lambda>e. de_ivorn e = ev_ivorn ev) (filter (same_event ev) (tb_events db))"
    and commits: "\<forall>st. commit_error env st = None"
  shows "fst (remove_previous_events env ev db) = None \<and>
         fst (snd (remove_previous_events env ev db)) =
           soft_deleted (filter (same_event ev) (tb_events db)) db"
proof -
  let ?s0 = "\<lparr>persisted = db, pending = db,
      log_lines = [(DEBUG, ''Event {} has {} previous entries in the database'',
        [AStr (ev_name ev), ANat (length (filter (same_event ev) (tb_events db)))])]\<rparr>"
  let ?r = "delete_loop env (filter (same_event ev) (tb_events db)) ?s0"
  have body: "remove_previous_events_body env ev \<lparr>persisted = db, pending = db, log_lines = []\<rparr> = ?r"
    using prior fresh by (simp add: remove_previous_events_body_def Let_def)
  from delete_loop_ok [OF commits, of "filter (same_event ev) (tb_events db)" ?s0] prior
  have r: "fst ?r = Inr ()"
    "pending (snd ?r) = soft_deleted (filter (same_event ev) (tb_events db)) db"
    "persisted (snd ?r) = soft_deleted (filter (same_event ev) (tb_events db)) db"
    by simp_all
  obtain s' where s': "?r = (Inr (), s')"
    using r(1) by (cases ?r) auto
  with r have "pending s' = soft_deleted (filter (same_event ev) (tb_events db)) db"
    "persisted s' = soft_deleted (filter (same_event ev) (tb_events db)) db"
    by simp_all
  then show ?thesis
    using commits
    by (simp add: remove_previous_events_def open_session_def body s' commit_def)
qed

lemma soft_deleted_rows:
  "length (tb_mpointings (soft_deleted prior db)) = length (tb_mpointings db) \<and>
   length (tb_pointings (soft_deleted prior db)) = length (tb_pointings db) \<and>
   (\<forall>i<length (tb_mpointings db).
      (\<exists>e\<in>set prior. mp_event_id (tb_mpointings db ! i) = Some (de_id e)) \<and>
      (mp_status (tb_mpointings db ! i) = ''scheduled'' \<or>
       mp_status (tb_mpointings db ! i) = ''unscheduled'') \<longrightarrow>
        tb_mpointings (soft_deleted prior db) ! i =
          (tb_mpointings db ! i)\<lparr>mp_status := ''deleted''\<rparr>) \<and>
   (\<forall>i<length (tb_pointings db).
      (\<exists>e\<in>set prior. pt_event_id (tb_pointings db ! i) = Some (de_id e)) \<and>
      pt_status (tb_pointings db ! i) = ''pending'' \<longrightarrow>
        tb_pointings (soft_deleted prior db) ! i =
          (tb_pointings db ! i)\<lparr>pt_status := ''deleted''\<rparr>) \<and>
   (\<forall>i<length (tb_pointings db).
      pt_status (tb_pointings db ! i) \<noteq> ''pending'' \<longrightarrow>
        tb_pointings (soft_deleted prior db) ! i = tb_pointings db ! i)"
  by (simp add: soft_deleted_def mark_mpointings_def mark_pointings_def list_ex_iff)

text \<open>
  Claim C6. When previous events with the incoming event's name and source exist,
  none of them has the incoming ivorn, and the commits succeed,
  \<^verbatim>\<open>remove_previous_events\<close> returns normally and the database is the one the
  specification describes (\<open>soft_deleted\<close>): of those events, every Mpointing that is
  scheduled or unscheduled and every Pointing that is pending has its status set to
  deleted; every Pointing with another status is as it was; the tables keep their
  lengths, so no row is removed.
\<close>

theorem previous_events_soft_deleted:
  assumes "prior = filter (\<lambda>e. de_name e = ev_name ev \<and> de_source e = ev_source ev) (tb_events db)"
    and "prior \<noteq> []"
    and "\<forall>e\<in>set prior. de_ivorn e \<noteq> ev_ivorn ev"
    and "\<forall>st. commit_error env st = None"
  shows "fst (remove_previous_events env ev db) = None \<and>
         fst (snd (remove_previous_events env ev db)) = soft_deleted prior db \<and>
         length (tb_mpointings (soft_deleted prior db)) = length (tb_mpointings db) \<and>
         length (tb_pointings (soft_deleted prior db)) = length (tb_pointings db) \<and>
         (\<forall>i<length (tb_mpointings db).
            (\<exists>e\<in>set prior. mp_event_id (tb_mpointings db ! i) = Some (de_id e)) \<and>
            (mp_status (tb_mpointings db ! i) = ''scheduled'' \<or>
             mp_status (tb_mpointings db ! i) = ''unscheduled'') \<longrightarrow>
              tb_mpointings (soft_deleted prior db) ! i =
                (tb_mpointings db ! i)\<lparr>mp_status := ''deleted''\<rparr>) \<and>
         (\<forall>i<length (tb_pointings db).
            (\<exists>e\<in>set prior. pt_event_id (tb_pointings db ! i) = Some (de_id e)) \<and>
            pt_status (tb_pointings db ! i) = ''pending'' \<longrightarrow>
              tb_pointings (soft_deleted prior db) ! i =
                (tb_pointings db ! i)\<lparr>pt_status := ''deleted''\<rparr>) \<and>
         (\<forall>i<length (tb_pointings db).
            pt_status (tb_pointings db ! i) \<noteq> ''pending'' \<longrightarrow>
              tb_pointings (soft_deleted prior db) ! i = tb_pointings db ! i)"
proof -
  have p: "prior = filter (same_event ev) (tb_events db)"
    using assms(1) by (simp add: same_event_def [abs_def])
  have "\<not> list_ex (\<lambda>e. de_ivorn e = ev_ivorn ev) (filter (same_event ev) (tb_events db))"
    using assms(3) unfolding p by (simp add: list_ex_iff)
  from remove_previous_events_ok [OF _ this assms(4)] assms(2) p soft_deleted_rows [of prior db]
  show ?thesis by simp
qed

theorem previous_events_soft_deleted_witness:
  "[example_prior_event] =
     filter (\<lambda>e. de_name e = ev_name example_event \<and> de_source e = ev_source example_event)
       (tb_events example_db) \<and>
   de_ivorn example_prior_event \<noteq> ev_ivorn example_event \<and>
   fst (remove_previous_events example_env example_event example_db) = None \<and>
   fst (snd (remove_previous_events example_env example_event example_db)) =
     example_db
       \<lparr>tb_mpointings := [example_prior_mpointing\<lparr>mp_status := ''deleted''\<rparr>],
        tb_pointings :=
          [\<lparr>pt_id = 6, pt_status = ''deleted'', pt_event_id = Some 4, pt_grid_tile_id = Some 3,
            pt_survey_tile_id = None, pt_mpointing_id = Some 5\<rparr>,
           \<lparr>pt_id = 7, pt_status = ''running'', pt_event_id = Some 4, pt_grid_tile_id = Some 3,
            pt_survey_tile_id = None, pt_mpointing_id = Some 5\<rparr>]\<rparr>"
proof -
  have a: "[example_prior_event] =
     filter (\<lambda>e. de_name e = ev_name example_event \<and> de_source e = ev_source example_event)
       (tb_events example_db)"
    by (simp add: example_db_def example_event_def example_prior_event_def)
  have b: "[example_prior_event] \<noteq> []" by simp
  have c: "\<forall>e\<in>set [example_prior_event]. de_ivorn e \<noteq> ev_ivorn example_event"
    by (simp add: example_event_def example_prior_event_def)
  have d: "\<forall>st. commit_error example_env st = None"
    by (simp add: example_env_def)
  have e: "soft_deleted [example_prior_event] example_db =
     example_db
       \<lparr>tb_mpointings := [example_prior_mpointing\<lparr>mp_status := ''deleted''\<rparr>],
        tb_pointings :=
          [\<lparr>pt_id = 6, pt_status = ''deleted'', pt_event_id = Some 4, pt_grid_tile_id = Some 3,
            pt_survey_tile_id = None, pt_mpointing_id = Some 5\<rparr>,
           \<lparr>pt_id = 7, pt_status = ''running'', pt_event_id = Some 4, pt_grid_tile_id = Some 3,
            pt_survey_tile_id = None, pt_mpointing_id = Some 5\<rparr>]\<rparr>"
    by (simp add: soft_deleted_def mark_mpointings_def mark_pointings_def example_db_def
        example_prior_event_def example_prior_mpointing_def)
  have c': "de_ivorn example_prior_event \<noteq> ev_ivorn example_event"
    using c by simp
  from previous_events_soft_deleted [OF a b c d]
  have r: "fst (remove_previous_events example_env example_event example_db) = None"
    and r': "fst (snd (remove_previous_events example_env example_event example_db)) =
      soft_deleted [example_prior_event] example_db"
    by blast+
  show ?thesis
    using a c' r r' [unfolded e] by blast
qed

section \<open>Nothing is persisted before the commit\<close>

lemma keeps_ret [simp]: "keeps_persisted (ret x)"
  by (simp add: keeps_persisted_def ret_def)

lemma keeps_raise [simp]: "keeps_persisted (raise e)"
  by (simp add: keeps_persisted_def raise_def)

lemma keeps_lift_err [simp]: "keeps_persisted (lift_err r)"
  by (simp add: keeps_persisted_def lift_err_def)

lemma keeps_log_call [simp]: "keeps_persisted (log_call lv fmt args)"
  by (simp add: keeps_persisted_def log_call_def)

lemma keeps_alloc [simp]: "keeps_persisted alloc"
  by (simp add: keeps_persisted_def alloc_def)

lemma keeps_session_add_event [simp]: "keeps_persisted (session_add_event e)"
  by (simp add: keeps_persisted_def session_add_event_def)

lemma keeps_session_add_survey [simp]: "keeps_persisted (session_add_survey sv)"
  by (simp add: keeps_persisted_def session_add_survey_def)

lemma keeps_insert_items [simp]: "keeps_persisted (insert_items mps)"
  by (simp add: keeps_persisted_def insert_items_def)

lemma keeps_then_do:
  assumes "keeps_persisted m" and "\<And>x. keeps_persisted (f x)"
  shows "keeps_persisted (then_do m f)"
  unfolding keeps_persisted_def
proof
  fix s
  obtain r s1 where ms: "m s = (r, s1)" by (cases "m s")
  with assms(1) have p1: "persisted s1 = persisted s"
    by (auto simp: keeps_persisted_def dest: spec [of _ s])
  show "persisted (snd (then_do m f s)) = persisted s"
  proof (cases r)
    case (Inl e)
    with ms p1 show ?thesis by (simp add: then_do_def)
  next
    case (Inr x)
    with ms have "then_do m f s = f x s1" by (simp add: then_do_def)
    with assms(2) [of x] p1 show ?thesis by (simp add: keeps_persisted_def)
  qed
qed

lemma keeps_if:
  "(c \<Longrightarrow> keeps_persisted a) \<Longrightarrow> (\<not> c \<Longrightarrow> keeps_persisted b) \<Longrightarrow>
     keeps_persisted (if c then a else b)"
  by simp

lemma persisted_then_do:
  "keeps_persisted m \<Longrightarrow> (\<And>x. keeps_persisted (f x)) \<Longrightarrow>
     persisted (snd (then_do m f s)) = persisted s"
  using keeps_then_do [of m f] by (simp add: keeps_persisted_def)

lemma keeps_get_user [simp]: "keeps_persisted get_user"
  unfolding keeps_persisted_def get_user_def
  by (auto split: option.splits simp: ret_def persisted_then_do)

lemma keeps_get_grid [simp]: "keeps_persisted get_grid"
  unfolding keeps_persisted_def get_grid_def
  by (simp add: Let_def ret_def raise_def)

lemma keeps_new_mpointing [simp]: "keeps_persisted (new_mpointing env n ra dec mpd)"
  unfolding new_mpointing_def by (intro keeps_then_do) simp_all

lemma keeps_attach_exposure_sets [simp]: "keeps_persisted (attach_exposure_sets xs m)"
  by (induction xs arbitrary: m) (simp_all add: keeps_then_do)

lemma keeps_single_mpointing [simp]:
  "keeps_persisted (single_mpointing env ev mpd expsets db_ev db_user)"
  unfolding single_mpointing_def by (intro keeps_then_do) simp_all

lemma keeps_tile_mpointing [simp]:
  "keeps_persisted (tile_mpointing env ev mpd db_ev db_user db_grid db_survey row)"
  unfolding keeps_persisted_def tile_mpointing_def
  by (intro allI persisted_then_do keeps_then_do) (simp_all add: Let_def keeps_then_do)

lemma keeps_tile_loop [simp]:
  assumes "\<And>row. keeps_persisted (body row)"
  shows "keeps_persisted (tile_loop body rows st)"
proof (induction rows arbitrary: st)
  case Nil
  show ?case by simp
next
  case (Cons row rows)
  obtain mps g t where st: "st = (mps, g, t)" by (cases st)
  show ?case
    unfolding st tile_loop.simps
    by (intro keeps_then_do assms) (auto simp: Cons.IH)
qed

lemma keeps_first_pointing [simp]:
  "keeps_persisted (first_pointing env db_ev g t m)"
  unfolding first_pointing_def
  by (intro keeps_then_do) (auto simp: Let_def split: option.splits)

lemma keeps_finish_mpointings [simp]:
  "keeps_persisted (finish_mpointings env expsets db_ev g t ms)"
  by (induction ms) (auto intro!: keeps_then_do)

lemma keeps_create_mpointings [simp]:
  "keeps_persisted (create_mpointings env ev mpd expsets db_ev ctx db_user)"
  unfolding create_mpointings_def
  by (intro keeps_then_do) (auto intro!: keeps_then_do split: option.splits)

lemma keeps_select_tiles [simp]: "keeps_persisted (select_tiles env ev db_ev)"
  unfolding select_tiles_def
  by (intro keeps_then_do) (auto simp: Let_def intro!: keeps_then_do)

lemma transactional_keeps:
  assumes "keeps_persisted m"
  shows "transactional env m"
  unfolding transactional_def
proof
  fix s
  obtain r s' where ms: "m s = (r, s')" by (cases "m s")
  with assms have "persisted s' = persisted s"
    by (auto simp: keeps_persisted_def dest: spec [of _ s])
  with ms show "case m s of
      (Inl e, s') \<Rightarrow> persisted s' = persisted s
    | (Inr x, s') \<Rightarrow> persisted s' = persisted s \<or> commit_error env (pending s') = None"
    by (cases r) simp_all
qed

lemma transactional_then_do:
  assumes "keeps_persisted m" and "\<And>x. transactional env (f x)"
  shows "transactional env (then_do m f)"
  unfolding transactional_def
proof
  fix s
  obtain r s1 where ms: "m s = (r, s1)" by (cases "m s")
  with assms(1) have p1: "persisted s1 = persisted s"
    by (auto simp: keeps_persisted_def dest: spec [of _ s])
  show "case then_do m f s of
      (Inl e, s') \<Rightarrow> persisted s' = persisted s
    | (Inr x, s') \<Rightarrow> persisted s' = persisted s \<or> commit_error env (pending s') = None"
  proof (cases r)
    case (Inl e)
    with ms p1 show ?thesis by (simp add: then_do_def)
  next
    case (Inr x)
    with ms have "then_do m f s = f x s1" by (simp add: then_do_def)
    with assms(2) [of x, unfolded transactional_def, rule_format, of s1] p1 show ?thesis
      by (auto split: prod.splits sum.splits)
  qed
qed

lemma transactional_commit_or_rollback: "transactional env (commit_or_rollback env)"
  by (simp add: transactional_def commit_or_rollback_def commit_def rollback_def
      split: option.splits)

lemma transactional_add_mpointings:
  "transactional env (add_mpointings env ev mpd expsets db_ev ctx)"
  unfolding add_mpointings_def
  by (intro transactional_then_do transactional_commit_or_rollback)
    (auto intro!: transactional_then_do transactional_commit_or_rollback)

lemma transactional_ret: "transactional env (ret x)"
  by (simp add: transactional_keeps)

lemma transactional_body: "transactional env (add_to_database_body env ev)"
  unfolding add_to_database_body_def
  by (intro transactional_then_do)
    (auto simp: Let_def intro!: transactional_then_do transactional_add_mpointings
      transactional_ret split: option.splits)

lemma open_session_transactional:
  assumes "transactional env body" and "fst (open_session env body db) = Some e"
  shows "fst (snd (open_session env body db)) = db"
proof -
  let ?s0 = "\<lparr>persisted = db, pending = db, log_lines = []\<rparr>"
  obtain r s' where b: "body ?s0 = (r, s')" by (cases "body ?s0")
  from assms(1) b have t: "case r of Inl e \<Rightarrow> persisted s' = db
      | Inr x \<Rightarrow> persisted s' = db \<or> commit_error env (pending s') = None"
    by (auto simp: transactional_def dest!: spec [of _ ?s0] split: sum.splits)
  show ?thesis
  proof (cases r)
    case (Inl e')
    with b t show ?thesis by (simp add: open_session_def)
  next
    case (Inr x)
    with b t assms(2) show ?thesis
      by (auto simp: open_session_def commit_def split: if_splits option.splits)
  qed
qed



section \<open>Evaluation on the example inputs\<close>

lemmas run_defs = add_to_database_def open_session_def add_to_database_body_def
  then_do_def lift_err_def alloc_def log_call_def session_add_event_def session_add_survey_def
  ret_def raise_def select_tiles_def get_grid_def get_user_def add_mpointings_def
  create_mpointings_def single_mpointing_def new_mpointing_def tile_mpointing_def
  first_pointing_def insert_items_def commit_or_rollback_def commit_def rollback_def
  getitem_def one_or_none_def py_slice_to_def py_max_def limit_tiles_def Let_def
  DEFAULT_USER_def DEFAULT_PW_def DEFAULT_NAME_def get_grid_tiles_def mean_below_def
  apply_mask_def event_row_def

lemmas example_defs = example_env_def example_db_def example_strategy_def
  example_grid_def example_prior_event_def example_prior_mpointing_def example_pointing_def
  example_point_source_def example_mp_data_def example_expsets_def

lemma example_event_fields:
  "ev_name example_event = ''GW1''"
  "ev_ivorn example_event = ''ivo://gw1/2''"
  "ev_source example_event = ''LVC''"
  "ev_type example_event = ''GW_CBC''"
  "ev_time example_event = ''2019-01-01 00:00:00''"
  "ev_skymap_url example_event = None"
  "ev_coord example_event = (10, 20)"
  "ev_strategy example_event = example_strategy"
  by (simp_all add: example_event_def)



section \<open>Retractions\<close>

lemma retraction_body:
  assumes "ev_type ev = ''GW_RETRACTION''"
  shows "add_to_database_body env ev \<lparr>persisted = db, pending = db, log_lines = []\<rparr> =
     (case get_mpointing_info ev of
        Inl e \<Rightarrow> (Inl e, \<lparr>persisted = db, pending = db, log_lines = []\<rparr>)
      | Inr x \<Rightarrow> (Inr (), \<lparr>persisted = db, pending = with_event ev db,
                   log_lines = [(DEBUG, ''Adding Event to database'', [])]\<rparr>))"
  using assms
  by (simp add: add_to_database_body_def then_do_def lift_err_def alloc_def log_call_def
      session_add_event_def ret_def Let_def with_event_def event_row_def
      split: sum.splits prod.splits)

lemma retraction_result:
  assumes "ev_type ev = ''GW_RETRACTION''"
  shows "add_to_database env ev db =
     (case get_mpointing_info ev of
        Inl e \<Rightarrow> (Some e, db, [])
      | Inr x \<Rightarrow>
          (if exit_commits env
           then (case commit_error env (with_event ev db) of
                   Some msg \<Rightarrow> (Some (DatabaseError msg), db,
                                 [(DEBUG, ''Adding Event to database'', [])])
                 | None \<Rightarrow> (None, with_event ev db,
                             [(DEBUG, ''Adding Event to database'', [])]))
           else (None, db, [(DEBUG, ''Adding Event to database'', [])])))"
  by (simp add: add_to_database_def open_session_def retraction_body [OF assms] commit_def
      split: sum.splits option.splits)

text \<open>
  Claim C7, as the code has it. For an event of type \<^verbatim>\<open>GW_RETRACTION\<close>,
  \<^verbatim>\<open>add_to_database\<close> never adds a Survey or an Mpointing row, whatever the
  strategy holds. The plan is derived first: when the strategy lacks a key, the
  \<^verbatim>\<open>KeyError\<close> is raised before the Event row is made and the database is left
  as it was; when the derivation succeeds, the Event row is the only change, and it is
  in the database once the session is committed on leaving its block.
\<close>

theorem retraction_adds_only_the_event:
  assumes "ev_type ev = ''GW_RETRACTION''"
  shows "tb_surveys (fst (snd (add_to_database env ev db))) = tb_surveys db \<and>
         tb_mpointings (fst (snd (add_to_database env ev db))) = tb_mpointings db \<and>
         (\<forall>e. get_mpointing_info ev = Inl e \<longrightarrow> add_to_database env ev db = (Some e, db, [])) \<and>
         (\<forall>x. get_mpointing_info ev = Inr x \<and> exit_commits env \<and>
               commit_error env (with_event ev db) = None \<longrightarrow>
            add_to_database env ev db =
              (None, with_event ev db, [(DEBUG, ''Adding Event to database'', [])]))"
  by (simp add: retraction_result [OF assms] with_event_def
      split: sum.splits option.splits)

theorem retraction_adds_only_the_event_witness:
  "ev_type example_retraction = ''GW_RETRACTION'' \<and>
   get_mpointing_info example_retraction = Inr (example_mp_data, example_expsets) \<and>
   add_to_database example_env example_retraction example_db =
     (None,
      example_db
        \<lparr>tb_events :=
           [example_prior_event,
            \<lparr>de_id = 8, de_name = ''GW1'', de_ivorn = ''ivo://gw1/2'', de_source = ''LVC'',
             de_event_type = ''GW_RETRACTION'', de_time = ''2019-01-01 00:00:00'',
             de_skymap = None\<rparr>],
         tb_next_id := 9\<rparr>,
      [(DEBUG, ''Adding Event to database'', [])])"
proof -
  have t: "ev_type example_retraction = ''GW_RETRACTION''"
    by (simp add: example_retraction_def)
  have g: "get_mpointing_info example_retraction = Inr (example_mp_data, example_expsets)"
    using example_get_mpointing_info
    by (simp add: get_mpointing_info_def example_retraction_def)
  have c: "exit_commits example_env \<and>
      commit_error example_env (with_event example_retraction example_db) = None"
    by (simp add: example_env_def)
  have w: "with_event example_retraction example_db =
      example_db
        \<lparr>tb_events :=
           [example_prior_event,
            \<lparr>de_id = 8, de_name = ''GW1'', de_ivorn = ''ivo://gw1/2'', de_source = ''LVC'',
             de_event_type = ''GW_RETRACTION'', de_time = ''2019-01-01 00:00:00'',
             de_skymap = None\<rparr>],
         tb_next_id := 9\<rparr>"
    by (simp add: with_event_def event_row_def example_retraction_def example_event_def
        example_db_def)
  from retraction_adds_only_the_event [OF t, of example_env example_db] g c
  have "add_to_database example_env example_retraction example_db =
      (None, with_event example_retraction example_db,
       [(DEBUG, ''Adding Event to database'', [])])"
    by blast
  with t g w show ?thesis by simp
qed

theorem retraction_malformed_strategy_counterexample:
  "ev_type example_bare_retraction = ''GW_RETRACTION'' \<and>
   fst (add_to_database example_env example_bare_retraction example_db) =
     Some (KeyError ''exposure_sets_dict'') \<and>
   tb_events (fst (snd (add_to_database example_env example_bare_retraction example_db))) =
     tb_events example_db"
proof -
  have t: "ev_type example_bare_retraction = ''GW_RETRACTION''"
    by (simp add: example_bare_retraction_def example_retraction_def)
  have g: "get_mpointing_info example_bare_retraction = Inl (KeyError ''exposure_sets_dict'')"
    by (simp add: get_mpointing_info_def example_bare_retraction_def bind_err_def getitem_def)
  show ?thesis
    using t by (simp add: retraction_result [OF t] g)
qed

section \<open>The Mpointings of the tiled case\<close>

lemma same_tables_refl: "same_tables s s"
  unfolding same_tables_def by (rule exI [of _ "tb_next_id (pending s)"]) simp

lemma same_tables_trans: "same_tables s s1 \<Longrightarrow> same_tables s1 s2 \<Longrightarrow> same_tables s s2"
  unfolding same_tables_def by auto

lemma same_tables_fields:
  assumes "same_tables s s'"
  shows "persisted s' = persisted s" "log_lines s' = log_lines s"
    "tb_events (pending s') = tb_events (pending s)"
    "tb_grids (pending s') = tb_grids (pending s)"
    "tb_grid_tiles (pending s') = tb_grid_tiles (pending s)"
    "tb_surveys (pending s') = tb_surveys (pending s)"
    "tb_survey_tiles (pending s') = tb_survey_tiles (pending s)"
    "tb_users (pending s') = tb_users (pending s)"
    "tb_mpointings (pending s') = tb_mpointings (pending s)"
    "tb_exposure_sets (pending s') = tb_exposure_sets (pending s)"
    "tb_pointings (pending s') = tb_pointings (pending s)"
  using assms by (auto simp: same_tables_def)

lemma yields_ret: "P x \<Longrightarrow> yields (ret x) s P"
  by (auto simp: yields_def ret_def same_tables_refl)

lemma yields_lift_err: "r = Inr x \<Longrightarrow> P x \<Longrightarrow> yields (lift_err r) s P"
  by (auto simp: yields_def lift_err_def same_tables_refl)

lemma yields_alloc: "yields alloc s (\<lambda>i. i = tb_next_id (pending s))"
  by (auto simp: yields_def alloc_def same_tables_def)

lemma yields_mono: "yields m s P \<Longrightarrow> (\<And>x. P x \<Longrightarrow> Q x) \<Longrightarrow> yields m s Q"
  by (auto simp: yields_def)

lemma yields_then_do:
  assumes "yields m s P"
    and "\<And>x s'. P x \<Longrightarrow> same_tables s s' \<Longrightarrow> yields (f x) s' Q"
  shows "yields (then_do m f) s Q"
proof -
  from assms(1) obtain x s1 where m: "m s = (Inr x, s1)" and t: "same_tables s s1" and p: "P x"
    by (auto simp: yields_def)
  from assms(2) [OF p t] obtain y s2 where f: "f x s1 = (Inr y, s2)"
    and t2: "same_tables s1 s2" and q: "Q y"
    by (auto simp: yields_def)
  from m f have "then_do m f s = (Inr y, s2)" by (simp add: then_do_def)
  with same_tables_trans [OF t t2] q show ?thesis by (auto simp: yields_def)
qed

lemma yields_attach_exposure_sets:
  "yields (attach_exposure_sets xs m) s
     (\<lambda>m'. mo_row m' = mo_row m \<and> mo_user m' = mo_user m \<and>
            mo_survey_tile m' = mo_survey_tile m \<and> mo_pointings m' = mo_pointings m \<and>
            map es_data (mo_exposure_sets m') = map es_data (mo_exposure_sets m) @ xs \<and>
            (\<forall>e\<in>set (mo_exposure_sets m') - set (mo_exposure_sets m).
               es_mpointing_id e = Some (mp_id (mo_row m))))"
proof (induction xs arbitrary: m s)
  case Nil
  show ?case by (simp add: yields_ret)
next
  case (Cons x xs)
  show ?case
    unfolding attach_exposure_sets.simps
    by (rule yields_then_do [OF yields_alloc]) (rule yields_mono [OF Cons.IH], auto)
qed

lemma yields_first_pointing:
  "yields (first_pointing env db_ev (Some g) (Some t) m) s
     (\<lambda>m'. mo_row m' = mo_row m \<and> mo_user m' = mo_user m \<and>
            mo_survey_tile m' = mo_survey_tile m \<and>
            mo_exposure_sets m' = mo_exposure_sets m \<and>
            (\<exists>p. mo_pointings m' = mo_pointings m @ [p] \<and>
                 pt_event_id p = Some (de_id db_ev) \<and>
                 pt_grid_tile_id p = map_option gt_id g \<and>
                 pt_survey_tile_id p = Some (stl_id t) \<and>
                 pt_mpointing_id p = Some (mp_id (mo_row m))))"
  unfolding first_pointing_def
  by (rule yields_then_do [OF yields_alloc]) (simp add: Let_def yields_ret)


lemma yields_finish_mpointings:
  "yields (finish_mpointings env xs db_ev (Some g) (Some t) ms) s
     (\<lambda>ms'. map mo_row ms' = map mo_row ms \<and>
             map (\<lambda>m. map es_data (mo_exposure_sets m)) ms' =
               map (\<lambda>m. map es_data (mo_exposure_sets m) @ xs) ms \<and>
             (\<forall>m'\<in>set ms'. \<forall>p\<in>set (mo_pointings m') . mo_pointings m' \<noteq> [] \<and>
                (p = last (mo_pointings m') \<longrightarrow>
                   pt_grid_tile_id p = map_option gt_id g \<and>
                   pt_survey_tile_id p = Some (stl_id t))))"
proof (induction ms arbitrary: s)
  case Nil
  show ?case by (simp add: yields_ret)
next
  case (Cons m ms)
  show ?case
    unfolding finish_mpointings.simps
  proof (rule yields_then_do [OF yields_attach_exposure_sets],
      rule yields_then_do [OF yields_first_pointing],
      rule yields_then_do [OF Cons.IH], rule yields_ret)
    fix m1 m2 :: mpointing and ms2 :: "mpointing list"
    assume a: "mo_row m1 = mo_row m \<and> mo_user m1 = mo_user m \<and>
        mo_survey_tile m1 = mo_survey_tile m \<and> mo_pointings m1 = mo_pointings m \<and>
        map es_data (mo_exposure_sets m1) = map es_data (mo_exposure_sets m) @ xs \<and>
        (\<forall>e\<in>set (mo_exposure_sets m1) - set (mo_exposure_sets m).
           es_mpointing_id e = Some (mp_id (mo_row m)))"
      and b: "mo_row m2 = mo_row m1 \<and> mo_user m2 = mo_user m1 \<and>
        mo_survey_tile m2 = mo_survey_tile m1 \<and>
        mo_exposure_sets m2 = mo_exposure_sets m1 \<and>
        (\<exists>p. mo_pointings m2 = mo_pointings m1 @ [p] \<and>
             pt_event_id p = Some (de_id db_ev) \<and>
             pt_grid_tile_id p = map_option gt_id g \<and>
             pt_survey_tile_id p = Some (stl_id t) \<and>
             pt_mpointing_id p = Some (mp_id (mo_row m1)))"
      and c: "map mo_row ms2 = map mo_row ms \<and>
        map (\<lambda>m. map es_data (mo_exposure_sets m)) ms2 =
          map (\<lambda>m. map es_data (mo_exposure_sets m) @ xs) ms \<and>
        (\<forall>m'\<in>set ms2. \<forall>p\<in>set (mo_pointings m') . mo_pointings m' \<noteq> [] \<and>
           (p = last (mo_pointings m') \<longrightarrow>
              pt_grid_tile_id p = map_option gt_id g \<and>
              pt_survey_tile_id p = Some (stl_id t)))"
    from b obtain p where p: "mo_pointings m2 = mo_pointings m1 @ [p]"
      "pt_grid_tile_id p = map_option gt_id g" "pt_survey_tile_id p = Some (stl_id t)"
      by blast
    have "\<forall>q\<in>set (mo_pointings m2). mo_pointings m2 \<noteq> [] \<and>
        (q = last (mo_pointings m2) \<longrightarrow>
           pt_grid_tile_id q = map_option gt_id g \<and> pt_survey_tile_id q = Some (stl_id t))"
      using p by simp
    with a b c
    show "map mo_row (m2 # ms2) = map mo_row (m # ms) \<and>
        map (\<lambda>m. map es_data (mo_exposure_sets m)) (m2 # ms2) =
          map (\<lambda>m. map es_data (mo_exposure_sets m) @ xs) (m # ms) \<and>
        (\<forall>m'\<in>set (m2 # ms2). \<forall>p\<in>set (mo_pointings m') . mo_pointings m' \<noteq> [] \<and>
           (p = last (mo_pointings m') \<longrightarrow>
              pt_grid_tile_id p = map_option gt_id g \<and>
              pt_survey_tile_id p = Some (stl_id t)))"
      by simp
  qed
qed

lemma yields_get_user: "yields get_user s (\<lambda>_. True)"
proof (cases "find (\<lambda>u. us_username u = DEFAULT_USER) (tb_users (pending s))")
  case None
  have "yields (then_do alloc (\<lambda>i. ret \<lparr>us_id = i, us_username = DEFAULT_USER,
      us_password = DEFAULT_PW, us_full_name = DEFAULT_NAME\<rparr>)) s (\<lambda>_. True)"
    by (rule yields_then_do [OF yields_alloc]) (simp add: yields_ret)
  with None show ?thesis by (simp add: yields_def get_user_def)
next
  case (Some u)
  then show ?thesis by (simp add: yields_def get_user_def ret_def same_tables_refl)
qed

lemma yields_new_mpointing:
  "yields (new_mpointing env n ra dec mpd) s
     (\<lambda>m. mp_object_name m = n \<and> mp_ra m = ra \<and> mp_dec m = dec \<and> mp_data m = mpd)"
  unfolding new_mpointing_def
  by (rule yields_then_do [OF yields_alloc]) (simp add: yields_ret)

lemma yields_tile_mpointing:
  assumes "length (filter (\<lambda>g. gt_grid_id g = dg_id db_grid \<and> gt_name g = tr_tilename row)
              (tb_grid_tiles (pending s))) \<le> 1"
  shows "yields (tile_mpointing env ev mpd db_ev db_user db_grid db_survey row) s
     (\<lambda>(g, t, m). mp_object_name (mo_row m) = ev_name ev @ ''_'' @ tr_tilename row \<and>
        mp_ra (mo_row m) = None \<and> mp_dec (mo_row m) = None \<and>
        mp_grid_tile_id (mo_row m) = map_option gt_id g \<and>
        mp_survey_tile_id (mo_row m) = Some (stl_id t) \<and>
        mo_survey_tile m = Some t \<and> stl_weight t = tr_prob row \<and>
        mo_exposure_sets m = [] \<and> mo_pointings m = [])"
proof -
  let ?rows = "filter (\<lambda>g. gt_grid_id g = dg_id db_grid \<and> gt_name g = tr_tilename row)
      (tb_grid_tiles (pending s))"
  from assms obtain g where g: "one_or_none ?rows = Inr g"
    by (cases ?rows rule: list.exhaust [case_names Nil Cons])
      (auto simp: one_or_none_def split: list.splits)
  have "yields
     (then_do (lift_err (one_or_none ?rows)) (\<lambda>db_grid_tile.
      then_do alloc (\<lambda>i.
      let db_survey_tile = \<lparr>stl_id = i, stl_weight = tr_prob row,
                            stl_survey_id = sv_id db_survey,
                            stl_grid_tile_id = map_option gt_id db_grid_tile\<rparr> in
      then_do (new_mpointing env (ev_name ev @ ''_'' @ tr_tilename row) None None mpd) (\<lambda>m.
        ret (db_grid_tile, db_survey_tile,
             \<lparr>mo_row = m\<lparr>mp_user_id := Some (us_id db_user),
                         mp_grid_tile_id := map_option gt_id db_grid_tile,
                         mp_survey_tile_id := Some (stl_id db_survey_tile),
                         mp_event_id := Some (de_id db_ev)\<rparr>,
              mo_user = db_user, mo_survey_tile = Some db_survey_tile,
              mo_exposure_sets = [], mo_pointings = []\<rparr>))))) s
     (\<lambda>(g, t, m). mp_object_name (mo_row m) = ev_name ev @ ''_'' @ tr_tilename row \<and>
        mp_ra (mo_row m) = None \<and> mp_dec (mo_row m) = None \<and>
        mp_grid_tile_id (mo_row m) = map_option gt_id g \<and>
        mp_survey_tile_id (mo_row m) = Some (stl_id t) \<and>
        mo_survey_tile m = Some t \<and> stl_weight t = tr_prob row \<and>
        mo_exposure_sets m = [] \<and> mo_pointings m = [])"
    apply (rule yields_then_do [OF yields_lift_err [OF g, of "\<lambda>_. True"]], simp)
    apply (rule yields_then_do [OF yields_alloc])
    apply (simp only: Let_def)
    apply (rule yields_then_do [OF yields_new_mpointing])
    apply (rule yields_ret)
    apply simp
    done
  then show ?thesis
    by (simp add: yields_def tile_mpointing_def)
qed


lemma yields_tile_loop:
  assumes "\<forall>row\<in>set rows.
      length (filter (\<lambda>g. gt_grid_id g = dg_id db_grid \<and> gt_name g = tr_tilename row)
                (tb_grid_tiles (pending s))) \<le> 1"
  shows "yields
     (tile_loop (tile_mpointing env ev mpd db_ev db_user db_grid db_survey) rows (acc, g0, t0)) s
     (\<lambda>(mps, g, t). \<exists>new. mps = acc @ new \<and>
        map (\<lambda>m. mp_object_name (mo_row m)) new =
          map (\<lambda>r. ev_name ev @ ''_'' @ tr_tilename r) rows \<and>
        (\<forall>m\<in>set new. mp_ra (mo_row m) = None \<and> mp_dec (mo_row m) = None \<and>
           mo_exposure_sets m = [] \<and> mo_pointings m = []) \<and>
        (g0 \<noteq> None \<and> t0 \<noteq> None \<or> rows \<noteq> [] \<longrightarrow> g \<noteq> None \<and> t \<noteq> None))"
  using assms
proof (induction rows arbitrary: acc g0 t0 s)
  case Nil
  show ?case by (simp add: yields_ret)
next
  case (Cons row rows)
  from Cons.prems have here:
    "length (filter (\<lambda>g. gt_grid_id g = dg_id db_grid \<and> gt_name g = tr_tilename row)
               (tb_grid_tiles (pending s))) \<le> 1"
    by simp
  show ?case
    unfolding tile_loop.simps
  proof (rule yields_then_do [OF yields_tile_mpointing [OF here]])
    fix x :: "db_grid_tile option \<times> db_survey_tile \<times> mpointing" and s' :: session
    assume x: "case x of (g, t, m) \<Rightarrow>
        mp_object_name (mo_row m) = ev_name ev @ ''_'' @ tr_tilename row \<and>
        mp_ra (mo_row m) = None \<and> mp_dec (mo_row m) = None \<and>
        mp_grid_tile_id (mo_row m) = map_option gt_id g \<and>
        mp_survey_tile_id (mo_row m) = Some (stl_id t) \<and>
        mo_survey_tile m = Some t \<and> stl_weight t = tr_prob row \<and>
        mo_exposure_sets m = [] \<and> mo_pointings m = []"
      and t: "same_tables s s'"
    obtain g t' m where xs: "x = (g, t', m)" by (cases x)
    from Cons.prems same_tables_fields(5) [OF t]
    have rest: "\<forall>row\<in>set rows.
        length (filter (\<lambda>g. gt_grid_id g = dg_id db_grid \<and> gt_name g = tr_tilename row)
                  (tb_grid_tiles (pending s'))) \<le> 1"
      by simp
    show "yields
       (case x of (g, t, m) \<Rightarrow>
          tile_loop (tile_mpointing env ev mpd db_ev db_user db_grid db_survey) rows
            (acc @ [m], Some g, Some t)) s'
       (\<lambda>(mps, g, t). \<exists>new. mps = acc @ new \<and>
          map (\<lambda>m. mp_object_name (mo_row m)) new =
            map (\<lambda>r. ev_name ev @ ''_'' @ tr_tilename r) (row # rows) \<and>
          (\<forall>m\<in>set new. mp_ra (mo_row m) = None \<and> mp_dec (mo_row m) = None \<and>
             mo_exposure_sets m = [] \<and> mo_pointings m = []) \<and>
          (g0 \<noteq> None \<and> t0 \<noteq> None \<or> row # rows \<noteq> [] \<longrightarrow> g \<noteq> None \<and> t \<noteq> None))"
      unfolding xs prod.case
    proof (rule yields_mono [OF Cons.IH [OF rest, of "acc @ [m]" "Some g" "Some t'"]])
      fix y :: tile_locals
      assume y: "case y of (mps, g', t'') \<Rightarrow> \<exists>new. mps = (acc @ [m]) @ new \<and>
          map (\<lambda>m. mp_object_name (mo_row m)) new =
            map (\<lambda>r. ev_name ev @ ''_'' @ tr_tilename r) rows \<and>
          (\<forall>m\<in>set new. mp_ra (mo_row m) = None \<and> mp_dec (mo_row m) = None \<and>
             mo_exposure_sets m = [] \<and> mo_pointings m = []) \<and>
          (Some g \<noteq> None \<and> Some t' \<noteq> None \<or> rows \<noteq> [] \<longrightarrow> g' \<noteq> None \<and> t'' \<noteq> None)"
      obtain mps g' t'' where ys: "y = (mps, g', t'')" by (cases y)
      from y [unfolded ys prod.case] obtain new where new: "mps = (acc @ [m]) @ new"
        "map (\<lambda>m. mp_object_name (mo_row m)) new =
           map (\<lambda>r. ev_name ev @ ''_'' @ tr_tilename r) rows"
        "\<forall>m\<in>set new. mp_ra (mo_row m) = None \<and> mp_dec (mo_row m) = None \<and>
           mo_exposure_sets m = [] \<and> mo_pointings m = []"
        "g' \<noteq> None \<and> t'' \<noteq> None"
        by auto
      show "case y of (mps, g, t) \<Rightarrow> \<exists>new. mps = acc @ new \<and>
          map (\<lambda>m. mp_object_name (mo_row m)) new =
            map (\<lambda>r. ev_name ev @ ''_'' @ tr_tilename r) (row # rows) \<and>
          (\<forall>m\<in>set new. mp_ra (mo_row m) = None \<and> mp_dec (mo_row m) = None \<and>
             mo_exposure_sets m = [] \<and> mo_pointings m = []) \<and>
          (g0 \<noteq> None \<and> t0 \<noteq> None \<or> row # rows \<noteq> [] \<longrightarrow> g \<noteq> None \<and> t \<noteq> None)"
        unfolding ys prod.case
        using new x [unfolded xs prod.case]
        by (intro exI [of _ "m # new"]) simp
    qed
  qed
qed


lemma add_mpointings_tiled:
  assumes on_grid: "st_on_grid (ev_strategy ev) = Some True"
    and unique: "\<forall>row\<in>set tile_table.
      length (filter (\<lambda>g. gt_grid_id g = dg_id db_grid \<and> gt_name g = tr_tilename row)
                (tb_grid_tiles (pending s))) \<le> 1"
    and ne: "tile_table \<noteq> []"
    and commits: "\<forall>st. commit_error env st = None"
  shows "\<exists>new s'.
      add_mpointings env ev mpd expsets db_ev (Some (db_grid, tile_table, db_survey)) s =
        (Inr (), s') \<and>
      persisted s' = pending s' \<and>
      tb_mpointings (pending s') = tb_mpointings (pending s) @ new \<and>
      map mp_object_name new = map (\<lambda>r. ev_name ev @ ''_'' @ tr_tilename r) tile_table \<and>
      (\<forall>m\<in>set new. mp_ra m = None \<and> mp_dec m = None) \<and>
      tb_surveys (pending s') = tb_surveys (pending s) \<and>
      tb_events (pending s') = tb_events (pending s)"
proof -
  from yields_get_user [of s] obtain u s1 where
    u: "get_user s = (Inr u, s1)" and t1: "same_tables s s1"
    by (auto simp: yields_def)
  from unique same_tables_fields(5) [OF t1]
  have unique1: "\<forall>row\<in>set tile_table.
      length (filter (\<lambda>g. gt_grid_id g = dg_id db_grid \<and> gt_name g = tr_tilename row)
                (tb_grid_tiles (pending s1))) \<le> 1"
    by simp
  from yields_tile_loop [OF unique1, of env ev mpd db_ev u db_survey "[]" None None] ne
  obtain mps g t s2 where
    loop: "tile_loop (tile_mpointing env ev mpd db_ev u db_grid db_survey) tile_table
        ([], None, None) s1 = (Inr (mps, Some g, Some t), s2)"
    and t2: "same_tables s1 s2"
    and names: "map (\<lambda>m. mp_object_name (mo_row m)) mps =
        map (\<lambda>r. ev_name ev @ ''_'' @ tr_tilename r) tile_table"
    and coords: "\<forall>m\<in>set mps. mp_ra (mo_row m) = None \<and> mp_dec (mo_row m) = None"
    by (auto simp: yields_def)
  have create: "create_mpointings env ev mpd expsets db_ev
      (Some (db_grid, tile_table, db_survey)) u s1 = (Inr (mps, Some g, Some t), s2)"
    using loop on_grid
    by (simp add: create_mpointings_def then_do_def lift_err_def getitem_def)
  from yields_finish_mpointings [of env expsets db_ev g t mps s2]
  obtain mps' s3 where
    finish: "finish_mpointings env expsets db_ev (Some g) (Some t) mps s2 = (Inr mps', s3)"
    and t3: "same_tables s2 s3"
    and rows: "map mo_row mps' = map mo_row mps"
    by (auto simp: yields_def)
  have t: "same_tables s s3"
    using t1 t2 t3 by (blast intro: same_tables_trans)
  let ?new = "map mo_row mps'"
  have run: "add_mpointings env ev mpd expsets db_ev (Some (db_grid, tile_table, db_survey)) s =
      commit_or_rollback env
        (snd (insert_items mps'
           (s3\<lparr>log_lines := log_lines s3 @
              [(DEBUG, ''Adding {} Mpointings to database'', [ANat (length mps')])]\<rparr>)))"
    using u create finish
    by (simp add: add_mpointings_def then_do_def log_call_def insert_items_def)
  have n: "map mp_object_name ?new = map (\<lambda>r. ev_name ev @ ''_'' @ tr_tilename r) tile_table"
    using names unfolding rows by (simp add: comp_def)
  have c: "\<forall>m\<in>set ?new. mp_ra m = None \<and> mp_dec m = None"
    using coords unfolding rows by simp
  show ?thesis
    apply (rule exI [of _ ?new])
    using commits n c same_tables_fields [OF t]
    by (simp add: run commit_or_rollback_def commit_def insert_items_def)
qed


lemma then_do_lift_err_Inr: "then_do (lift_err (Inr x)) f s = f x s"
  by (simp add: then_do_def lift_err_def)

lemma then_do_lift_err_Inl: "then_do (lift_err (Inl e)) f s = (Inl e, s)"
  by (simp add: then_do_def lift_err_def)

lemma then_do_alloc:
  "then_do alloc f s =
     f (tb_next_id (pending s))
       (s\<lparr>pending := (pending s)\<lparr>tb_next_id := Suc (tb_next_id (pending s))\<rparr>\<rparr>)"
  by (simp add: then_do_def alloc_def)

lemma then_do_session_add_event:
  "then_do (session_add_event e) f s =
     f () (s\<lparr>pending := (pending s)\<lparr>tb_events := tb_events (pending s) @ [e]\<rparr>\<rparr>)"
  by (simp add: then_do_def session_add_event_def)

lemma then_do_session_add_survey:
  "then_do (session_add_survey sv) f s =
     f () (s\<lparr>pending := (pending s)\<lparr>tb_surveys := tb_surveys (pending s) @ [sv]\<rparr>\<rparr>)"
  by (simp add: then_do_def session_add_survey_def)

lemma then_do_get_grid:
  "tb_grids (pending s) \<noteq> [] \<Longrightarrow> then_do get_grid f s = f (last (tb_grids (pending s))) s"
  by (simp add: then_do_def get_grid_def Let_def ret_def)

lemmas then_do_steps = then_do_lift_err_Inr then_do_lift_err_Inl then_do_alloc
  then_do_session_add_event then_do_session_add_survey

lemma body_on_grid:
  assumes "get_mpointing_info ev = Inr (mpd, expsets)"
    and "ev_type ev \<noteq> ''GW_RETRACTION''"
    and "st_on_grid (ev_strategy ev) = Some True"
  shows "add_to_database_body env ev \<lparr>persisted = db, pending = db, log_lines = []\<rparr> =
     then_do (select_tiles env ev (event_row ev (tb_next_id db)))
       (\<lambda>r. case r of
          None \<Rightarrow> ret ()
        | Some ctx \<Rightarrow>
            add_mpointings env ev mpd expsets (event_row ev (tb_next_id db)) (Some ctx))
       \<lparr>persisted = db, pending = with_event ev db,
        log_lines = [(DEBUG, ''Adding Event to database'', [])]\<rparr>"
  using assms
  by (simp add: add_to_database_body_def then_do_steps getitem_def with_event_def Let_def)

lemma select_tiles_empty:
  assumes "st_tile_limit (ev_strategy ev) = Some tile_limit"
    and "st_prob_limit (ev_strategy ev) = Some prob_limit"
    and "tb_grids (pending s) \<noteq> []"
    and "apply_skymap env (last (tb_grids (pending s))) ev \<noteq> []"
    and "limit_tiles
           (masked_table (get_grid_tiles (table_sort env)
              (apply_skymap env (last (tb_grids (pending s))) ev)))
           tile_limit prob_limit = []"
    and "sorts_by_prob (table_sort env)"
  shows "\<exists>highest. select_tiles env ev db_ev s =
     (Inr None,
      s\<lparr>log_lines := log_lines s @
         [(INFO, ''Applying to Grid {}'', [AStr (dg_name (last (tb_grids (pending s))))]),
          (DEBUG, ''Masked tile table has {} entries'', [ANat 0]),
          (WARNING, ''No tiles passed filtering, no pointings to add'', []),
          (DEBUG, ''Highest tile has {:.2f}%'', [AReal (highest * 100)])]\<rparr>)"
proof -
  let ?tabs = "get_grid_tiles (table_sort env)
      (apply_skymap env (last (tb_grids (pending s))) ev)"
  have "length (full_table ?tabs) =
      length (apply_skymap env (last (tb_grids (pending s))) ev)"
    by (simp add: get_grid_tiles_def Let_def sorts_by_prob_length [OF assms(6)])
  with assms(4) have "full_table ?tabs \<noteq> []"
    by auto
  then obtain h where h: "py_max (map tr_prob (full_table ?tabs)) = Inr h"
    by (cases "full_table ?tabs") (simp_all add: py_max_def)
  show ?thesis
    using assms(1,2,5) h
    by (intro exI [of _ h])
      (simp add: select_tiles_def then_do_get_grid [OF assms(3)] then_do_steps ret_def
        getitem_def Let_def)
qed

lemma select_tiles_nonempty:
  assumes "st_tile_limit (ev_strategy ev) = Some tile_limit"
    and "st_prob_limit (ev_strategy ev) = Some prob_limit"
    and "tb_grids (pending s) \<noteq> []"
    and "limit_tiles
           (masked_table (get_grid_tiles (table_sort env)
              (apply_skymap env (last (tb_grids (pending s))) ev)))
           tile_limit prob_limit = tile_table"
    and "tile_table \<noteq> []"
  shows "select_tiles env ev db_ev s =
      (Inr (Some (last (tb_grids (pending s)), tile_table,
                  \<lparr>sv_id = tb_next_id (pending s), sv_name = ev_name ev,
                   sv_grid_id = dg_id (last (tb_grids (pending s))),
                   sv_event_id = de_id db_ev\<rparr>)),
       s\<lparr>pending := (pending s)
           \<lparr>tb_next_id := Suc (tb_next_id (pending s)),
            tb_surveys := tb_surveys (pending s) @
              [\<lparr>sv_id = tb_next_id (pending s), sv_name = ev_name ev,
                sv_grid_id = dg_id (last (tb_grids (pending s))),
                sv_event_id = de_id db_ev\<rparr>]\<rparr>,
         log_lines := log_lines s @
           [(INFO, ''Applying to Grid {}'', [AStr (dg_name (last (tb_grids (pending s))))]),
            (DEBUG, ''Masked tile table has {} entries'', [ANat (length tile_table)]),
            (DEBUG, ''Adding Survey to database'', [])]\<rparr>)"
  using assms(1,2,4,5)
  by (simp add: select_tiles_def then_do_get_grid [OF assms(3)] then_do_steps ret_def
      getitem_def Let_def)

lemma limit_tiles_length:
  "0 \<le> tile_limit \<Longrightarrow> length (limit_tiles masked tile_limit prob_limit) \<le> nat tile_limit"
  by (simp add: limit_tiles_def py_slice_to_def Let_def le_trans [OF length_filter_le])

lemma limit_tiles_all:
  "length masked \<le> nat tile_limit \<Longrightarrow> 0 \<le> tile_limit \<Longrightarrow> prob_limit \<le> 0 \<Longrightarrow>
     limit_tiles masked tile_limit prob_limit = masked"
  by (simp add: limit_tiles_def py_slice_to_def Let_def)

lemma limit_tiles_cut:
  "0 \<le> tile_limit \<Longrightarrow> prob_limit \<le> 0 \<Longrightarrow>
     limit_tiles masked tile_limit prob_limit = take (nat tile_limit) masked"
  by (simp add: limit_tiles_def py_slice_to_def Let_def)

lemma limit_tiles_prob:
  "0 \<le> tile_limit \<Longrightarrow> 0 < prob_limit \<Longrightarrow>
     limit_tiles masked tile_limit prob_limit =
       filter (\<lambda>r. prob_limit < tr_prob r) (take (nat tile_limit) masked)"
  by (simp add: limit_tiles_def py_slice_to_def Let_def)


lemma open_session_returns:
  assumes "body \<lparr>persisted = db, pending = db, log_lines = []\<rparr> = (Inr (), s')"
    and "commit_error env (pending s') = None"
  shows "open_session env body db =
     (None, if exit_commits env then pending s' else persisted s', log_lines s')"
  using assms by (simp add: open_session_def commit_def)

lemma with_event_tables:
  "tb_grids (with_event ev db) = tb_grids db"
  "tb_grid_tiles (with_event ev db) = tb_grid_tiles db"
  "tb_surveys (with_event ev db) = tb_surveys db"
  "tb_mpointings (with_event ev db) = tb_mpointings db"
  "tb_next_id (with_event ev db) = Suc (tb_next_id db)"
  by (simp_all add: with_event_def)

lemma tiled_empty_result:
  assumes derive: "get_mpointing_info ev = Inr (mpd, expsets)"
    and notretr: "ev_type ev \<noteq> ''GW_RETRACTION''"
    and on_grid: "st_on_grid (ev_strategy ev) = Some True"
    and tl: "st_tile_limit (ev_strategy ev) = Some tile_limit"
    and pl: "st_prob_limit (ev_strategy ev) = Some prob_limit"
    and grids: "tb_grids db \<noteq> []"
    and sky: "apply_skymap env (last (tb_grids db)) ev \<noteq> []"
    and empty: "limit_tiles
        (masked_table (get_grid_tiles (table_sort env)
           (apply_skymap env (last (tb_grids db)) ev)))
        tile_limit prob_limit = []"
    and commits: "\<forall>st. commit_error env st = None"
    and sorting: "sorts_by_prob (table_sort env)"
  shows "fst (add_to_database env ev db) = None \<and>
         tb_surveys (fst (snd (add_to_database env ev db))) = tb_surveys db \<and>
         tb_mpointings (fst (snd (add_to_database env ev db))) = tb_mpointings db \<and>
         (WARNING, ''No tiles passed filtering, no pointings to add'', []) \<in>
           set (snd (snd (add_to_database env ev db)))"
proof -
  let ?s1 = "\<lparr>persisted = db, pending = with_event ev db,
      log_lines = [(DEBUG, ''Adding Event to database'', [])]\<rparr>"
  let ?lg = "\<lambda>highest. [(DEBUG, ''Adding Event to database'', []),
      (INFO, ''Applying to Grid {}'', [AStr (dg_name (last (tb_grids db)))]),
      (DEBUG, ''Masked tile table has {} entries'', [ANat 0]),
      (WARNING, ''No tiles passed filtering, no pointings to add'', []),
      (DEBUG, ''Highest tile has {:.2f}%'', [AReal (highest * 100)])]"
  from select_tiles_empty [of ev tile_limit prob_limit ?s1 env "event_row ev (tb_next_id db)"]
    tl pl grids sky empty sorting
  obtain highest where sel: "select_tiles env ev (event_row ev (tb_next_id db)) ?s1 =
     (Inr None, \<lparr>persisted = db, pending = with_event ev db, log_lines = ?lg highest\<rparr>)"
    by (auto simp: with_event_tables)
  have body: "add_to_database_body env ev \<lparr>persisted = db, pending = db, log_lines = []\<rparr> =
     (Inr (), \<lparr>persisted = db, pending = with_event ev db, log_lines = ?lg highest\<rparr>)"
    unfolding body_on_grid [OF derive notretr on_grid]
    by (simp only: then_do_def sel prod.case sum.case option.case ret_def)
  show ?thesis
    unfolding add_to_database_def
      open_session_returns [of "add_to_database_body env ev" db _ env, OF body commits [rule_format]]
    by (simp add: with_event_tables)
qed

lemma tiled_result:
  assumes derive: "get_mpointing_info ev = Inr (mpd, expsets)"
    and notretr: "ev_type ev \<noteq> ''GW_RETRACTION''"
    and on_grid: "st_on_grid (ev_strategy ev) = Some True"
    and tl: "st_tile_limit (ev_strategy ev) = Some tile_limit"
    and pl: "st_prob_limit (ev_strategy ev) = Some prob_limit"
    and grids: "tb_grids db \<noteq> []"
    and tt: "limit_tiles
        (masked_table (get_grid_tiles (table_sort env)
           (apply_skymap env (last (tb_grids db)) ev)))
        tile_limit prob_limit = tile_table"
    and ne: "tile_table \<noteq> []"
    and unique: "\<forall>row\<in>set tile_table.
      length (filter (\<lambda>g. gt_grid_id g = dg_id (last (tb_grids db)) \<and>
                           gt_name g = tr_tilename row) (tb_grid_tiles db)) \<le> 1"
    and commits: "\<forall>st. commit_error env st = None"
  shows "fst (add_to_database env ev db) = None \<and>
         (\<exists>new. tb_mpointings (fst (snd (add_to_database env ev db))) =
                   tb_mpointings db @ new \<and>
                 map mp_object_name new =
                   map (\<lambda>r. ev_name ev @ ''_'' @ tr_tilename r) tile_table \<and>
                 (\<forall>m\<in>set new. mp_ra m = None \<and> mp_dec m = None)) \<and>
         length (tb_surveys (fst (snd (add_to_database env ev db)))) =
           Suc (length (tb_surveys db))"
proof -
  let ?s1 = "\<lparr>persisted = db, pending = with_event ev db,
      log_lines = [(DEBUG, ''Adding Event to database'', [])]\<rparr>"
  let ?db_ev = "event_row ev (tb_next_id db)"
  let ?grid = "last (tb_grids db)"
  let ?sv = "\<lparr>sv_id = Suc (tb_next_id db), sv_name = ev_name ev, sv_grid_id = dg_id ?grid,
      sv_event_id = de_id ?db_ev\<rparr>"
  let ?s2 = "\<lparr>persisted = db,
      pending = (with_event ev db)
        \<lparr>tb_next_id := Suc (Suc (tb_next_id db)), tb_surveys := tb_surveys db @ [?sv]\<rparr>,
      log_lines =
        [(DEBUG, ''Adding Event to database'', []),
         (INFO, ''Applying to Grid {}'', [AStr (dg_name ?grid)]),
         (DEBUG, ''Masked tile table has {} entries'', [ANat (length tile_table)]),
         (DEBUG, ''Adding Survey to database'', [])]\<rparr>"
  have sel: "select_tiles env ev ?db_ev ?s1 = (Inr (Some (?grid, tile_table, ?sv)), ?s2)"
    using select_tiles_nonempty [of ev tile_limit prob_limit ?s1 env tile_table ?db_ev]
      tl pl grids tt ne
    by (simp add: with_event_tables)
  have unique2: "\<forall>row\<in>set tile_table.
      length (filter (\<lambda>g. gt_grid_id g = dg_id ?grid \<and> gt_name g = tr_tilename row)
                (tb_grid_tiles (pending ?s2))) \<le> 1"
    using unique by (simp add: with_event_tables)
  from add_mpointings_tiled [OF on_grid unique2 ne commits, of mpd expsets ?db_ev ?sv]
  obtain new s' where
    run: "add_mpointings env ev mpd expsets ?db_ev (Some (?grid, tile_table, ?sv)) ?s2 =
        (Inr (), s')"
    and committed: "persisted s' = pending s'"
    and mps: "tb_mpointings (pending s') = tb_mpointings (pending ?s2) @ new"
    and names: "map mp_object_name new =
        map (\<lambda>r. ev_name ev @ ''_'' @ tr_tilename r) tile_table"
    and coords: "\<forall>m\<in>set new. mp_ra m = None \<and> mp_dec m = None"
    and surveys: "tb_surveys (pending s') = tb_surveys (pending ?s2)"
    by blast
  have body: "add_to_database_body env ev \<lparr>persisted = db, pending = db, log_lines = []\<rparr> =
      (Inr (), s')"
    unfolding body_on_grid [OF derive notretr on_grid]
    by (simp only: then_do_def sel prod.case sum.case option.case run)
  have res: "add_to_database env ev db = (None, pending s', log_lines s')"
    unfolding add_to_database_def
      open_session_returns [of "add_to_database_body env ev" db _ env, OF body commits [rule_format]]
    by (simp add: committed)
  have "tb_mpointings (pending s') = tb_mpointings db @ new"
    using mps by (simp add: with_event_tables)
  moreover have "length (tb_surveys (pending s')) = Suc (length (tb_surveys db))"
    using surveys by (simp add: with_event_tables)
  ultimately show ?thesis
    using names coords by (auto simp: res)
qed


text \<open>
  Claim C9. On the tiled path (plan derived, not a retraction, \<^verbatim>\<open>on_grid\<close> set, a
  grid in the database whose table has at least one tile, a library sort that sorts,
  a \<^verbatim>\<open>tile_limit\<close> that is not negative, at most one GridTile of the grid for each
  tile name, commits that succeed), \<^verbatim>\<open>add_to_database\<close> returns without an exception and adds exactly one
  Mpointing for each row of the final tile table, named after the event and the tile.
  That table has at most \<^verbatim>\<open>tile_limit\<close> rows: it is the first \<^verbatim>\<open>tile_limit\<close> rows
  of the masked table (the whole of it when it has no more) when \<^verbatim>\<open>prob_limit\<close> is
  not positive; when \<^verbatim>\<open>prob_limit\<close> is positive, the rows at or below it are
  dropped from those. When the table
  is empty the warning is logged and no Survey or Mpointing row is added.
\<close>

theorem tiled_plan_limits:
  assumes derive: "get_mpointing_info ev = Inr (mpd, expsets)"
    and notretr: "ev_type ev \<noteq> ''GW_RETRACTION''"
    and on_grid: "st_on_grid (ev_strategy ev) = Some True"
    and tl: "st_tile_limit (ev_strategy ev) = Some tile_limit"
    and tl0: "0 \<le> tile_limit"
    and pl: "st_prob_limit (ev_strategy ev) = Some prob_limit"
    and grids: "tb_grids db \<noteq> []"
    and sky: "apply_skymap env (last (tb_grids db)) ev \<noteq> []"
    and sorting: "sorts_by_prob (table_sort env)"
    and masked: "masked = masked_table (get_grid_tiles (table_sort env)
        (apply_skymap env (last (tb_grids db)) ev))"
    and tt: "tile_table = limit_tiles masked tile_limit prob_limit"
    and unique: "\<forall>row\<in>set tile_table.
      length (filter (\<lambda>g. gt_grid_id g = dg_id (last (tb_grids db)) \<and>
                           gt_name g = tr_tilename row) (tb_grid_tiles db)) \<le> 1"
    and commits: "\<forall>st. commit_error env st = None"
  shows "fst (add_to_database env ev db) = None \<and>
         (\<exists>new. tb_mpointings (fst (snd (add_to_database env ev db))) =
                   tb_mpointings db @ new \<and>
                 map mp_object_name new =
                   map (\<lambda>r. ev_name ev @ ''_'' @ tr_tilename r) tile_table \<and>
                 (\<forall>m\<in>set new. mp_ra m = None \<and> mp_dec m = None)) \<and>
         length tile_table \<le> nat tile_limit \<and>
         (length masked \<le> nat tile_limit \<and> prob_limit \<le> 0 \<longrightarrow> tile_table = masked) \<and>
         (prob_limit \<le> 0 \<longrightarrow> tile_table = take (nat tile_limit) masked) \<and>
         (0 < prob_limit \<longrightarrow>
            tile_table = filter (\<lambda>r. prob_limit < tr_prob r) (take (nat tile_limit) masked)) \<and>
         (tile_table = [] \<longrightarrow>
            tb_surveys (fst (snd (add_to_database env ev db))) = tb_surveys db \<and>
            tb_mpointings (fst (snd (add_to_database env ev db))) = tb_mpointings db \<and>
            (WARNING, ''No tiles passed filtering, no pointings to add'', []) \<in>
              set (snd (snd (add_to_database env ev db))))"
proof -
  have lim: "limit_tiles
      (masked_table (get_grid_tiles (table_sort env)
         (apply_skymap env (last (tb_grids db)) ev)))
      tile_limit prob_limit = tile_table"
    using masked tt by simp
  have bounds: "length tile_table \<le> nat tile_limit"
    "length masked \<le> nat tile_limit \<and> prob_limit \<le> 0 \<longrightarrow> tile_table = masked"
    "prob_limit \<le> 0 \<longrightarrow> tile_table = take (nat tile_limit) masked"
    "0 < prob_limit \<longrightarrow>
       tile_table = filter (\<lambda>r. prob_limit < tr_prob r) (take (nat tile_limit) masked)"
    using tl0 unfolding tt
    by (simp_all add: limit_tiles_length limit_tiles_all limit_tiles_prob limit_tiles_cut)
  show ?thesis
  proof (cases "tile_table = []")
    case True
    from tiled_empty_result [OF derive notretr on_grid tl pl grids sky lim [unfolded True]
        commits sorting]
    show ?thesis using bounds True by simp
  next
    case False
    from tiled_result [OF derive notretr on_grid tl pl grids lim False unique commits]
    show ?thesis using bounds False by simp
  qed
qed

theorem tiled_plan_limits_witness:
  "fst (add_to_database example_env example_event example_db) = None \<and>
   map mp_object_name
     (drop (length (tb_mpointings example_db))
        (tb_mpointings (fst (snd (add_to_database example_env example_event example_db))))) =
     [''GW1_T0002''] \<and>
   fst (add_to_database example_env example_strict_event example_db) = None \<and>
   tb_surveys (fst (snd (add_to_database example_env example_strict_event example_db))) =
     tb_surveys example_db \<and>
   tb_mpointings (fst (snd (add_to_database example_env example_strict_event example_db))) =
     tb_mpointings example_db"
proof -
  let ?row = "\<lparr>tr_tilename = ''T0002'', tr_ra = 12, tr_dec = 20, tr_prob = 19 / 20\<rparr>"
  have grids: "tb_grids example_db \<noteq> []"
    by (simp add: example_db_def)
  have sky: "apply_skymap example_env (last (tb_grids example_db)) ev \<noteq> []" for ev
    by (simp add: example_env_def example_point_source_def)
  have sorting: "sorts_by_prob (table_sort example_env)"
    by (simp add: example_env_def sorts_by_prob_sort_key)
  have masked: "[?row] =
      masked_table (get_grid_tiles (table_sort example_env)
        (apply_skymap example_env (last (tb_grids example_db)) ev))"
    for ev
    by (simp add: example_env_def example_masked_table)
  have commits: "\<forall>st. commit_error example_env st = None"
    by (simp add: example_env_def)
  have derive: "get_mpointing_info example_event = Inr (example_mp_data, example_expsets)"
    by (rule example_get_mpointing_info)
  have derive': "get_mpointing_info example_strict_event =
      Inr (example_mp_data, example_expsets)"
    using example_get_mpointing_info
    by (simp add: get_mpointing_info_def example_strict_event_def example_event_def
        example_strategy_def)
  have t1: "[?row] = limit_tiles [?row] 5 0"
    by (simp add: limit_tiles_def py_slice_to_def)
  have t2: "[] = limit_tiles [?row] 5 1"
    by (simp add: limit_tiles_def py_slice_to_def)
  have u1: "\<forall>row\<in>set [?row].
      length (filter (\<lambda>g. gt_grid_id g = dg_id (last (tb_grids example_db)) \<and>
                           gt_name g = tr_tilename row) (tb_grid_tiles example_db)) \<le> 1"
    by (simp add: example_db_def example_grid_def)
  have u2: "\<forall>row\<in>set ([] :: table_row list).
      length (filter (\<lambda>g. gt_grid_id g = dg_id (last (tb_grids example_db)) \<and>
                           gt_name g = tr_tilename row) (tb_grid_tiles example_db)) \<le> 1"
    by simp
  have s1: "ev_type example_event \<noteq> ''GW_RETRACTION''"
    "st_on_grid (ev_strategy example_event) = Some True"
    "st_tile_limit (ev_strategy example_event) = Some 5"
    "st_prob_limit (ev_strategy example_event) = Some 0"
    by (simp_all add: example_event_def example_strategy_def)
  have s2: "ev_type example_strict_event \<noteq> ''GW_RETRACTION''"
    "st_on_grid (ev_strategy example_strict_event) = Some True"
    "st_tile_limit (ev_strategy example_strict_event) = Some 5"
    "st_prob_limit (ev_strategy example_strict_event) = Some 1"
    by (simp_all add: example_strict_event_def example_event_def example_strategy_def)
  have five: "(0::int) \<le> 5" by simp
  from tiled_plan_limits [OF derive s1(1,2,3) five s1(4) grids sky sorting masked t1 u1
      commits]
  obtain new where a: "fst (add_to_database example_env example_event example_db) = None"
    and n: "tb_mpointings (fst (snd (add_to_database example_env example_event example_db))) =
      tb_mpointings example_db @ new"
      "map mp_object_name new = map (\<lambda>r. ev_name example_event @ ''_'' @ tr_tilename r) [?row]"
    by blast
  have a': "map mp_object_name
     (drop (length (tb_mpointings example_db))
        (tb_mpointings (fst (snd (add_to_database example_env example_event example_db))))) =
     [''GW1_T0002'']"
    unfolding n(1) using n(2) by (simp add: example_event_def)
  from tiled_plan_limits [OF derive' s2(1,2,3) five s2(4) grids sky sorting masked t2 u2
      commits]
  have b: "fst (add_to_database example_env example_strict_event example_db) = None \<and>
      tb_surveys (fst (snd (add_to_database example_env example_strict_event example_db))) =
        tb_surveys example_db \<and>
      tb_mpointings (fst (snd (add_to_database example_env example_strict_event example_db))) =
        tb_mpointings example_db"
    by blast
  from a a' b show ?thesis by blast
qed

section \<open>The first Pointing and the event that is not on the grid\<close>

lemma yields_single_mpointing:
  "yields (single_mpointing env ev mpd expsets db_ev db_user) s
     (\<lambda>m. mp_ra (mo_row m) = Some (fst (ev_coord ev)) \<and>
           mp_dec (mo_row m) = Some (snd (ev_coord ev)) \<and>
           mo_pointings m = [] \<and> map es_data (mo_exposure_sets m) = expsets)"
  unfolding single_mpointing_def
  by (rule yields_then_do [OF yields_new_mpointing])
    (rule yields_mono [OF yields_attach_exposure_sets], simp)

lemma first_pointing_unbound:
  "fst (first_pointing env db_ev None t m s) = Inl (UnboundLocalError ''db_grid_tile'')"
  by (simp add: first_pointing_def then_do_def alloc_def raise_def Let_def)

lemma add_mpointings_untiled:
  assumes "st_on_grid (ev_strategy ev) = Some False"
  shows "fst (add_mpointings env ev mpd expsets db_ev None s) =
     Inl (UnboundLocalError ''db_grid_tile'')"
proof -
  from yields_get_user [of s] obtain u s1 where u: "get_user s = (Inr u, s1)"
    by (auto simp: yields_def)
  from yields_single_mpointing [of env ev mpd expsets db_ev u s1] obtain m s2 where
    m: "single_mpointing env ev mpd expsets db_ev u s1 = (Inr m, s2)"
    by (auto simp: yields_def)
  have create: "create_mpointings env ev mpd expsets db_ev None u s1 =
      (Inr ([m], None, None), s2)"
    using assms m
    by (simp add: create_mpointings_def then_do_lift_err_Inr getitem_def)
      (simp add: then_do_def ret_def)
  from yields_attach_exposure_sets [of expsets m s2] obtain m1 s3 where
    m1: "attach_exposure_sets expsets m s2 = (Inr m1, s3)"
    by (auto simp: yields_def)
  obtain s4 where p: "first_pointing env db_ev None None m1 s3 =
      (Inl (UnboundLocalError ''db_grid_tile''), s4)"
    using first_pointing_unbound [of env db_ev None m1 s3]
    by (cases "first_pointing env db_ev None None m1 s3") auto
  have "finish_mpointings env expsets db_ev None None [m] s2 =
      (Inl (UnboundLocalError ''db_grid_tile''), s4)"
    by (simp add: then_do_def m1 p)
  then show ?thesis
    by (simp add: add_mpointings_def then_do_def u create)
qed

lemma untiled_raises:
  assumes derive: "get_mpointing_info ev = Inr (mpd, expsets)"
    and notretr: "ev_type ev \<noteq> ''GW_RETRACTION''"
    and untiled: "st_on_grid (ev_strategy ev) = Some False"
  shows "fst (add_to_database env ev db) = Some (UnboundLocalError ''db_grid_tile'') \<and>
         fst (snd (add_to_database env ev db)) = db"
proof -
  let ?s1 = "\<lparr>persisted = db, pending = with_event ev db,
      log_lines = [(DEBUG, ''Adding Event to database'', [])]\<rparr>"
  have body: "add_to_database_body env ev \<lparr>persisted = db, pending = db, log_lines = []\<rparr> =
      add_mpointings env ev mpd expsets (event_row ev (tb_next_id db)) None ?s1"
    using derive notretr untiled
    by (simp add: add_to_database_body_def then_do_steps getitem_def with_event_def Let_def)
  obtain s' where "add_to_database_body env ev \<lparr>persisted = db, pending = db, log_lines = []\<rparr> =
      (Inl (UnboundLocalError ''db_grid_tile''), s')"
    unfolding body
    using add_mpointings_untiled [OF untiled, of env mpd expsets "event_row ev (tb_next_id db)" ?s1]
    by (cases "add_mpointings env ev mpd expsets (event_row ev (tb_next_id db)) None ?s1") auto
  then have r: "fst (add_to_database env ev db) = Some (UnboundLocalError ''db_grid_tile'')"
    by (simp add: add_to_database_def open_session_def)
  from open_session_transactional [OF transactional_body, of env ev db] r
  show ?thesis by (simp add: add_to_database_def)
qed

text \<open>
  Claim C4 at an event that is not on the grid. Lines 305 and 306 read
  \<^verbatim>\<open>db_grid_tile\<close> and \<^verbatim>\<open>db_survey_tile\<close>, which only the tile loop assigns: the
  function raises \<^verbatim>\<open>UnboundLocalError\<close> before the Mpointing is inserted, and the
  database keeps no Mpointing and no Pointing of the event.
\<close>

theorem untiled_event_raises:
  "st_on_grid (ev_strategy example_untiled_event) = Some False \<and>
   fst (add_to_database example_env example_untiled_event example_db) =
     Some (UnboundLocalError ''db_grid_tile'') \<and>
   fst (snd (add_to_database example_env example_untiled_event example_db)) = example_db"
proof -
  have d: "get_mpointing_info example_untiled_event = Inr (example_mp_data, example_expsets)"
    using example_get_mpointing_info
    by (simp add: get_mpointing_info_def example_untiled_event_def example_event_def
        example_strategy_def)
  have t: "ev_type example_untiled_event \<noteq> ''GW_RETRACTION''"
    "st_on_grid (ev_strategy example_untiled_event) = Some False"
    by (simp_all add: example_untiled_event_def example_event_def)
  from untiled_raises [OF d t] t(2) show ?thesis by simp
qed

text \<open>
  Claim C5 at an event that is not on the grid. The Mpointing made by lines 253 to
  267 already holds one ExposureSet for each specification; the loop of lines 295 to
  299 then attaches one more for each: every specification is attached twice.
\<close>

theorem untiled_exposure_sets_twice:
  "map_sum id (\<lambda>m. map es_data (mo_exposure_sets m))
     (fst (then_do (single_mpointing env ev mpd expsets db_ev db_user)
             (attach_exposure_sets expsets) s)) =
   Inr (expsets @ expsets)"
proof -
  have "yields (then_do (single_mpointing env ev mpd expsets db_ev db_user)
      (attach_exposure_sets expsets)) s
      (\<lambda>m. map es_data (mo_exposure_sets m) = expsets @ expsets)"
    by (rule yields_then_do [OF yields_single_mpointing])
      (rule yields_mono [OF yields_attach_exposure_sets], simp)
  then show ?thesis by (auto simp: yields_def)
qed

text \<open>
  Claim C1 at an event with two tiles. The Mpointing of tile T0002 (the first of the
  table) is linked to GridTile 3 and SurveyTile 11, but its first Pointing is linked
  to GridTile 2 and SurveyTile 13, the records of tile T0001: lines 305 and 306 use
  \<^verbatim>\<open>db_grid_tile\<close> and \<^verbatim>\<open>db_survey_tile\<close> as the tile loop left them, at its last
  tile.
\<close>

theorem first_pointing_linked_to_last_tile:
  "fst (add_to_database example_two_tile_env example_event example_empty_db) = None \<and>
   map (\<lambda>m. (mp_id m, mp_object_name m, mp_grid_tile_id m, mp_survey_tile_id m))
     (tb_mpointings
        (fst (snd (add_to_database example_two_tile_env example_event example_empty_db)))) =
     [(12, ''GW1_T0002'', Some 3, Some 11), (14, ''GW1_T0001'', Some 2, Some 13)] \<and>
   map (\<lambda>p. (pt_mpointing_id p, pt_grid_tile_id p, pt_survey_tile_id p))
     (tb_pointings
        (fst (snd (add_to_database example_two_tile_env example_event example_empty_db)))) =
     [(Some 12, Some 2, Some 13), (Some 14, Some 2, Some 13)]"
  by (simp add: run_defs example_defs example_two_tile_env_def example_empty_db_def
      example_sky_def example_event_fields example_get_mpointing_info)

end
